theory Spec2Isabelle
  imports Complex_Main
begin

section \<open>Shared pricing table (src/shared/pricing.ts)\<close>

text \<open>
  JavaScript numbers are modelled exactly: amounts of paise and millisecond timestamps as
  \<open>int\<close>, quantities of minutes as \<open>rat\<close> (a request may carry a fractional number of
  minutes). Floating-point rounding, \<open>NaN\<close> and the infinities are outside the model; the
  only place where the code meets a non-finite number, the check of the request's
  \<open>minutes\<close>, is modelled by an optional value. The dash in the \<open>targetUser\<close> text of
  the second plan is written as an ASCII hyphen.
\<close>

datatype PlanId = EditorBasic | CreatorPro | EditorMax | StudioAgency

record SubscriptionPlan =
  plan_id :: PlanId
  plan_name :: string
  minutesIncluded :: rat
  priceInPaise :: int
  targetUser :: string

fun PLANS :: "PlanId \<Rightarrow> SubscriptionPlan" where
  "PLANS EditorBasic =
     \<lparr>plan_id = EditorBasic, plan_name = ''Editor Basic'', minutesIncluded = 200,
      priceInPaise = 29900, targetUser = ''Students / beginners''\<rparr>"
| "PLANS CreatorPro =
     \<lparr>plan_id = CreatorPro, plan_name = ''Creator Pro'', minutesIncluded = 500,
      priceInPaise = 59900, targetUser = ''Freelancers handling 20-40 reels/month''\<rparr>"
| "PLANS EditorMax =
     \<lparr>plan_id = EditorMax, plan_name = ''Editor Max'', minutesIncluded = 1200,
      priceInPaise = 99900, targetUser = ''Mid-level freelancers''\<rparr>"
| "PLANS StudioAgency =
     \<lparr>plan_id = StudioAgency, plan_name = ''Studio/Agency'', minutesIncluded = 2400,
      priceInPaise = 149900, targetUser = ''Teams / Instagram agencies''\<rparr>"

definition LOW_BALANCE_THRESHOLD_PAISE :: int where
  "LOW_BALANCE_THRESHOLD_PAISE = 2000"

definition MIN_WALLET_TOPUP_PAISE :: int where
  "MIN_WALLET_TOPUP_PAISE = 10000"

definition TRIAL_DURATION_MS :: int where
  "TRIAL_DURATION_MS = 2 * 24 * 60 * 60 * 1000"

definition TRIAL_MINUTES :: rat where
  "TRIAL_MINUTES = 60"

definition WALLET_COST_PER_MINUTE_PAISE :: int where
  "WALLET_COST_PER_MINUTE_PAISE = 100"

section \<open>Account records (src/server/types.ts)\<close>

text \<open>
  Field names follow the source. Where two interfaces share a field name, the second
  carries a prefix: \<open>planExpiresAt\<close> is \<open>ActivePlan.expiresAt\<close> (\<open>number | null\<close>, hence
  an option), and \<open>pay_type\<close>, \<open>pay_planId\<close>, \<open>pay_createdAt\<close> are the \<open>type\<close>,
  \<open>planId\<close> and \<open>createdAt\<close> of a \<open>PaymentRecord\<close>.
\<close>

record TrialInfo =
  startedAt :: int
  expiresAt :: int
  consumedMinutes :: rat
  active :: bool
  maxMinutes :: rat

record ActivePlan =
  planId :: PlanId
  activatedAt :: int
  planExpiresAt :: "int option"
  remainingMinutes :: rat

datatype PaymentType = PlanPayment | WalletPayment

record PaymentRecord =
  pay_type :: PaymentType
  razorpayOrderId :: string
  razorpayPaymentId :: string
  amountInPaise :: int
  pay_planId :: "PlanId option"
  pay_createdAt :: int

record UserAccount =
  userId :: string
  email :: "string option"
  name :: "string option"
  picture :: "string option"
  walletBalancePaise :: int
  trial :: "TrialInfo option"
  activePlan :: "ActivePlan option"
  paymentHistory :: "PaymentRecord list"
  createdAt :: int
  updatedAt :: int

text \<open>The \<open>profile\<close> argument of \<open>getOrCreateUser\<close>: \<open>Pick<UserAccount, email | name | picture>\<close>.\<close>

record Profile =
  prof_email :: "string option"
  prof_name :: "string option"
  prof_picture :: "string option"

text \<open>The \<open>data\<close> argument of \<open>recordPayment\<close>: a payment record without its timestamp.\<close>

record PaymentData =
  data_type :: PaymentType
  data_amountInPaise :: int
  data_planId :: "PlanId option"
  data_razorpayOrderId :: string
  data_razorpayPaymentId :: string

section \<open>The user store (src/server/utils/userStore.ts)\<close>

text \<open>
  The document \<open>server/data/users.json\<close> is a map from user ids to accounts. Every
  operation below is the body that the source hands to \<open>withLock\<close>: it runs alone, from
  \<open>readAllUsers\<close> to \<open>writeAllUsers\<close>, takes the document and returns the document it
  leaves behind. File-system failures are not modelled. \<open>now\<close> is the reading of
  \<open>Date.now()\<close> during the operation. A \<open>throw new Error(msg)\<close> is the value
  \<open>Inl (Error msg)\<close>.
\<close>

type_synonym Users = "string \<rightharpoonup> UserAccount"

datatype error = Error string

text \<open>\<open>a ?? b\<close> on an optional string.\<close>

definition nullish :: "'a option \<Rightarrow> 'a option \<Rightarrow> 'a option" where
  "nullish a b = (case a of Some x \<Rightarrow> Some x | None \<Rightarrow> b)"

definition getOrCreateUser ::
  "int \<Rightarrow> string \<Rightarrow> Profile option \<Rightarrow> Users \<Rightarrow> UserAccount \<times> Users" where
  "getOrCreateUser now uid profile users =
     (case users uid of
        Some existing \<Rightarrow>
          (case profile of
             Some p \<Rightarrow>
               (let existing' = existing
                      \<lparr>email := nullish (prof_email p) (email existing),
                       name := nullish (prof_name p) (name existing),
                       picture := nullish (prof_picture p) (picture existing),
                       updatedAt := now\<rparr>
                in (existing', users(uid \<mapsto> existing')))
           | None \<Rightarrow> (existing, users))
      | None \<Rightarrow>
          (let fresh =
                 \<lparr>userId = uid,
                  email = (case profile of Some p \<Rightarrow> prof_email p | None \<Rightarrow> None),
                  name = (case profile of Some p \<Rightarrow> prof_name p | None \<Rightarrow> None),
                  picture = (case profile of Some p \<Rightarrow> prof_picture p | None \<Rightarrow> None),
                  walletBalancePaise = 0,
                  trial = None,
                  activePlan = None,
                  paymentHistory = [],
                  createdAt = now,
                  updatedAt = now\<rparr>
           in (fresh, users(uid \<mapsto> fresh))))"

text \<open>
  \<open>updateUser\<close>: the mutator works on the parsed copy of the account. When it throws, the
  exception leaves \<open>updateUser\<close> before \<open>writeAllUsers\<close>, so the document stays as it was,
  whatever the mutator had already assigned on the copy.
\<close>

definition updateUser ::
  "int \<Rightarrow> string \<Rightarrow> (UserAccount \<Rightarrow> error + UserAccount) \<Rightarrow> Users
     \<Rightarrow> (error + UserAccount) \<times> Users" where
  "updateUser now uid mutator users =
     (case users uid of
        None \<Rightarrow> (Inl (Error (''User '' @ uid @ '' not found'')), users)
      | Some existing \<Rightarrow>
          (case mutator existing of
             Inl e \<Rightarrow> (Inl e, users)
           | Inr mutated \<Rightarrow>
               (let existing' = mutated\<lparr>updatedAt := now\<rparr>
                in (Inr existing', users(uid \<mapsto> existing')))))"

subsection \<open>The mutators\<close>

definition recordPayment_mutator :: "int \<Rightarrow> PaymentData \<Rightarrow> UserAccount \<Rightarrow> error + UserAccount" where
  "recordPayment_mutator now d user =
     Inr (user\<lparr>paymentHistory :=
            take 50
              (\<lparr>pay_type = data_type d,
                razorpayOrderId = data_razorpayOrderId d,
                razorpayPaymentId = data_razorpayPaymentId d,
                amountInPaise = data_amountInPaise d,
                pay_planId = data_planId d,
                pay_createdAt = now\<rparr> # paymentHistory user)\<rparr>)"

definition activatePlan_mutator :: "ActivePlan \<Rightarrow> UserAccount \<Rightarrow> error + UserAccount" where
  "activatePlan_mutator plan user = Inr (user\<lparr>activePlan := Some plan\<rparr>)"

definition setTrialInfo_mutator :: "TrialInfo \<Rightarrow> UserAccount \<Rightarrow> error + UserAccount" where
  "setTrialInfo_mutator t user = Inr (user\<lparr>trial := Some t\<rparr>)"

definition adjustWallet_mutator :: "int \<Rightarrow> UserAccount \<Rightarrow> error + UserAccount" where
  "adjustWallet_mutator deltaPaise user =
     (let next = walletBalancePaise user + deltaPaise
      in if next < 0 then Inl (Error ''Insufficient wallet balance'')
         else Inr (user\<lparr>walletBalancePaise := next\<rparr>))"

definition clearTrial_mutator :: "UserAccount \<Rightarrow> error + UserAccount" where
  "clearTrial_mutator user = Inr (user\<lparr>trial := None\<rparr>)"

definition ensureActivePlanMinutes_mutator :: "rat \<Rightarrow> UserAccount \<Rightarrow> error + UserAccount" where
  "ensureActivePlanMinutes_mutator minutes user =
     (case activePlan user of
        None \<Rightarrow> Inl (Error ''No active plan'')
      | Some plan \<Rightarrow>
          if remainingMinutes plan < minutes then Inl (Error ''Insufficient plan minutes'')
          else Inr (user\<lparr>activePlan :=
                 Some (plan\<lparr>remainingMinutes := remainingMinutes plan - minutes\<rparr>)\<rparr>))"

text \<open>
  In \<open>consumeTrialMinutes\<close> the expired branch assigns \<open>user.trial.active = false\<close> and
  throws on the next line. The assignment is on the copy that \<open>updateUser\<close> drops when the
  mutator throws, so the branch is \<open>Inl\<close> like the other two failures.
\<close>

definition consumeTrialMinutes_mutator :: "int \<Rightarrow> rat \<Rightarrow> UserAccount \<Rightarrow> error + UserAccount" where
  "consumeTrialMinutes_mutator now minutes user =
     (case trial user of
        None \<Rightarrow> Inl (Error ''Trial inactive'')
      | Some t \<Rightarrow>
          if \<not> active t then Inl (Error ''Trial inactive'')
          else if expiresAt t < now then Inl (Error ''Trial expired'')
          else if consumedMinutes t + minutes > maxMinutes t
            then Inl (Error ''Trial minutes exceeded'')
          else Inr (user\<lparr>trial := Some (t\<lparr>consumedMinutes := consumedMinutes t + minutes\<rparr>)\<rparr>))"

subsection \<open>The exported operations\<close>

definition recordPayment :: "int \<Rightarrow> string \<Rightarrow> PaymentData \<Rightarrow> Users \<Rightarrow> (error + UserAccount) \<times> Users" where
  "recordPayment now uid d users = updateUser now uid (recordPayment_mutator now d) users"

definition activatePlan :: "int \<Rightarrow> string \<Rightarrow> ActivePlan \<Rightarrow> Users \<Rightarrow> (error + UserAccount) \<times> Users" where
  "activatePlan now uid plan users = updateUser now uid (activatePlan_mutator plan) users"

definition setTrialInfo :: "int \<Rightarrow> string \<Rightarrow> TrialInfo \<Rightarrow> Users \<Rightarrow> (error + UserAccount) \<times> Users" where
  "setTrialInfo now uid t users = updateUser now uid (setTrialInfo_mutator t) users"

definition adjustWallet :: "int \<Rightarrow> string \<Rightarrow> int \<Rightarrow> Users \<Rightarrow> (error + UserAccount) \<times> Users" where
  "adjustWallet now uid deltaPaise users = updateUser now uid (adjustWallet_mutator deltaPaise) users"

definition clearTrial :: "int \<Rightarrow> string \<Rightarrow> Users \<Rightarrow> (error + UserAccount) \<times> Users" where
  "clearTrial now uid users = updateUser now uid clearTrial_mutator users"

definition ensureActivePlanMinutes ::
  "int \<Rightarrow> string \<Rightarrow> rat \<Rightarrow> Users \<Rightarrow> (error + UserAccount) \<times> Users" where
  "ensureActivePlanMinutes now uid minutes users =
     updateUser now uid (ensureActivePlanMinutes_mutator minutes) users"

definition consumeTrialMinutes ::
  "int \<Rightarrow> string \<Rightarrow> rat \<Rightarrow> Users \<Rightarrow> (error + UserAccount) \<times> Users" where
  "consumeTrialMinutes now uid minutes users =
     updateUser now uid (consumeTrialMinutes_mutator now minutes) users"

definition loadUser :: "string \<Rightarrow> Users \<Rightarrow> UserAccount option" where
  "loadUser uid users = users uid"

section \<open>The HTTP handlers (the server's route file)\<close>

text \<open>
  A handler is modelled after the \<open>requireAuth\<close> gate has let the request through:
  \<open>uid\<close> is \<open>req.session.userId\<close>. It takes the document and returns the response
  (status code and JSON body) with the document it leaves behind. \<open>now\<close> is the handler's
  own reading of \<open>Date.now()\<close>; the store operations it awaits read the clock later, at
  \<open>now'\<close> (and \<open>now''\<close> for a second one). The handler is modelled running alone: no
  other request touches the document between its \<open>loadUser\<close> and its update.
\<close>

record PublicUser =
  pub_userId :: string
  pub_email :: "string option"
  pub_name :: "string option"
  pub_picture :: "string option"
  pub_walletBalancePaise :: int
  pub_trial :: "TrialInfo option"
  pub_activePlan :: "ActivePlan option"
  lowBalance :: bool
  pub_paymentHistory :: "PaymentRecord list"

definition publicUser :: "UserAccount \<Rightarrow> PublicUser" where
  "publicUser user =
     \<lparr>pub_userId = userId user,
      pub_email = email user,
      pub_name = name user,
      pub_picture = picture user,
      pub_walletBalancePaise = walletBalancePaise user,
      pub_trial = trial user,
      pub_activePlan = activePlan user,
      lowBalance = (walletBalancePaise user < LOW_BALANCE_THRESHOLD_PAISE),
      pub_paymentHistory = paymentHistory user\<rparr>"

datatype Source = SourcePlan | SourceTrial | SourceWallet

text \<open>
  The JSON bodies the handlers send: \<open>{error}\<close>, \<open>{error, requiredPaise}\<close>,
  \<open>{trial, message?}\<close>, \<open>{user}\<close>, \<open>{source, user, debitedPaise?}\<close> and the status
  body \<open>{user, plans, razorpayKeyId}\<close>, whose last two members are constants.
\<close>

datatype ResponseBody =
    ErrorBody string
  | InsufficientBody string int
  | TrialBody TrialInfo "string option"
  | UserBody "PublicUser option"
  | UsageBody Source "PublicUser option" "int option"
  | StatusBody PublicUser

type_synonym Response = "nat \<times> ResponseBody"

subsection \<open>GET /status\<close>

text \<open>The expired trial is marked inactive on the loaded copy only; nothing is written.\<close>

definition getStatus :: "int \<Rightarrow> string \<Rightarrow> Users \<Rightarrow> Response \<times> Users" where
  "getStatus now uid users =
     (case loadUser uid users of
        None \<Rightarrow> ((404, ErrorBody ''User not found''), users)
      | Some user \<Rightarrow>
          (let user' = (case trial user of
                          Some t \<Rightarrow>
                            if expiresAt t < now then user\<lparr>trial := Some (t\<lparr>active := False\<rparr>)\<rparr>
                            else user
                        | None \<Rightarrow> user)
           in ((200, StatusBody (publicUser user')), users)))"

subsection \<open>POST /subscription/start-trial\<close>

text \<open>
  \<open>setTrialInfo\<close> is awaited outside any \<open>try\<close>; it throws only for an unknown user,
  which \<open>loadUser\<close> has just excluded. The model answers 500 in that unreachable case.
\<close>

definition startTrial :: "int \<Rightarrow> int \<Rightarrow> string \<Rightarrow> Users \<Rightarrow> Response \<times> Users" where
  "startTrial now now' uid users =
     (case loadUser uid users of
        None \<Rightarrow> ((404, ErrorBody ''User not found''), users)
      | Some user \<Rightarrow>
          (case trial user of
             Some t \<Rightarrow>
               if active t \<and> expiresAt t > now
               then ((200, TrialBody t (Some ''Trial already active'')), users)
               else ((403, ErrorBody ''Trial already used''), users)
           | None \<Rightarrow>
               (let t = \<lparr>startedAt = now,
                         expiresAt = now + TRIAL_DURATION_MS,
                         consumedMinutes = 0,
                         active = True,
                         maxMinutes = TRIAL_MINUTES\<rparr>
                in (case setTrialInfo now' uid t users of
                      (Inr _, users') \<Rightarrow> ((200, TrialBody t None), users')
                    | (Inl (Error msg), users') \<Rightarrow> ((500, ErrorBody msg), users')))))"

subsection \<open>POST /subscription/confirm\<close>

text \<open>
  The request body. A string member that is absent is the empty string here: \<open>!x\<close> is
  true for both. \<open>planId\<close> is \<open>None\<close> when it is absent or no key of \<open>PLANS\<close>;
  \<open>intent\<close> is \<open>IntentOther\<close> when it is neither \<open>plan\<close> nor \<open>wallet\<close>.
\<close>

datatype Intent = IntentPlan | IntentWallet | IntentOther

record ConfirmRequest =
  razorpay_order_id :: string
  razorpay_payment_id :: string
  razorpay_signature :: string
  intent :: Intent
  req_planId :: "PlanId option"
  req_amountInPaise :: "int option"

text \<open>
  \<open>crypto.createHmac('sha256', key).update(msg).digest('hex')\<close> is a function of Node's
  library, not of this repository: the handler takes it as the parameter \<open>hmacSha256Hex\<close>
  (key first, message second), and the gateway secret of the environment as
  \<open>RAZORPAY_KEY_SECRET\<close>. Inside the \<open>try\<close>, a store operation that throws is answered
  with 500.
\<close>

definition confirmFailed :: "Users \<Rightarrow> Response \<times> Users" where
  "confirmFailed users = ((500, ErrorBody ''Failed to confirm payment''), users)"

definition confirm ::
  "(string \<Rightarrow> string \<Rightarrow> string) \<Rightarrow> string \<Rightarrow> int \<Rightarrow> int \<Rightarrow> int \<Rightarrow> string
     \<Rightarrow> ConfirmRequest \<Rightarrow> Users \<Rightarrow> Response \<times> Users" where
  "confirm hmacSha256Hex RAZORPAY_KEY_SECRET now now' now'' uid req users =
     (if razorpay_order_id req = [] \<or> razorpay_payment_id req = [] \<or> razorpay_signature req = []
      then ((400, ErrorBody ''Missing Razorpay confirmation data''), users)
      else
        (let expectedSignature =
               hmacSha256Hex RAZORPAY_KEY_SECRET
                 (razorpay_order_id req @ ''|'' @ razorpay_payment_id req)
         in if expectedSignature \<noteq> razorpay_signature req
            then ((400, ErrorBody ''Invalid signature''), users)
            else
              (case intent req of
                 IntentPlan \<Rightarrow>
                   (case req_planId req of
                      None \<Rightarrow> ((400, ErrorBody ''Invalid plan''), users)
                    | Some pid \<Rightarrow>
                        (let plan = PLANS pid in
                         case activatePlan now' uid
                                \<lparr>planId = plan_id plan,
                                 activatedAt = now,
                                 planExpiresAt = Some (now + 30 * 24 * 60 * 60 * 1000),
                                 remainingMinutes = minutesIncluded plan\<rparr> users of
                           (Inl _, users1) \<Rightarrow> confirmFailed users1
                         | (Inr _, users1) \<Rightarrow>
                             (case recordPayment now'' uid
                                     \<lparr>data_type = PlanPayment,
                                      data_amountInPaise = priceInPaise plan,
                                      data_planId = Some (plan_id plan),
                                      data_razorpayOrderId = razorpay_order_id req,
                                      data_razorpayPaymentId = razorpay_payment_id req\<rparr> users1 of
                                (Inl _, users2) \<Rightarrow> confirmFailed users2
                              | (Inr _, users2) \<Rightarrow>
                                  ((200, UserBody (map_option publicUser (loadUser uid users2))),
                                   users2))))
               | IntentWallet \<Rightarrow>
                   (case req_amountInPaise req of
                      None \<Rightarrow> ((400, ErrorBody ''Missing top-up amount''), users)
                    | Some amount \<Rightarrow>
                        if amount = 0 then ((400, ErrorBody ''Missing top-up amount''), users)
                        else
                          (case adjustWallet now' uid amount users of
                             (Inl _, users1) \<Rightarrow> confirmFailed users1
                           | (Inr _, users1) \<Rightarrow>
                               (case recordPayment now'' uid
                                       \<lparr>data_type = WalletPayment,
                                        data_amountInPaise = amount,
                                        data_planId = None,
                                        data_razorpayOrderId = razorpay_order_id req,
                                        data_razorpayPaymentId = razorpay_payment_id req\<rparr> users1 of
                                  (Inl _, users2) \<Rightarrow> confirmFailed users2
                                | (Inr _, users2) \<Rightarrow>
                                    ((200, UserBody (map_option publicUser (loadUser uid users2))),
                                     users2))))
               | IntentOther \<Rightarrow> ((400, ErrorBody ''Invalid intent''), users))))"

subsection \<open>POST /usage/consume\<close>

text \<open>
  \<open>minutes\<close> is \<open>Number(req.body.minutes)\<close>: \<open>None\<close> when it is not a finite number.
  Each branch awaits one store operation and then loads the user again for the response;
  \<open>usageDone\<close> is that common tail together with the \<open>catch\<close> of the handler, which turns
  a thrown error into status 400 with the error's message.
\<close>

definition usageDone ::
  "Source \<Rightarrow> int option \<Rightarrow> string \<Rightarrow> (error + UserAccount) \<times> Users \<Rightarrow> Response \<times> Users" where
  "usageDone source debitedPaise uid r =
     (case r of
        (Inl (Error msg), users') \<Rightarrow> ((400, ErrorBody msg), users')
      | (Inr _, users') \<Rightarrow>
          ((200, UsageBody source (map_option publicUser (loadUser uid users')) debitedPaise),
           users'))"

text \<open>Lines 386 and 387: the two nested conditions of the trial branch.\<close>

definition trialCovers :: "int \<Rightarrow> UserAccount \<Rightarrow> rat \<Rightarrow> bool" where
  "trialCovers now user usageMinutes =
     (case trial user of
        None \<Rightarrow> False
      | Some t \<Rightarrow>
          active t \<and> expiresAt t > now
          \<and> consumedMinutes t + usageMinutes \<le> maxMinutes t)"

text \<open>Lines 386 to 401: what the handler does once the plan branch has not returned.\<close>

definition usageAfterPlan ::
  "int \<Rightarrow> int \<Rightarrow> string \<Rightarrow> rat \<Rightarrow> UserAccount \<Rightarrow> Users \<Rightarrow> Response \<times> Users" where
  "usageAfterPlan now now' uid usageMinutes user users =
     (if trialCovers now user usageMinutes
      then usageDone SourceTrial None uid (consumeTrialMinutes now' uid usageMinutes users)
      else
        (let costPaise = \<lceil>usageMinutes\<rceil> * WALLET_COST_PER_MINUTE_PAISE
         in if walletBalancePaise user \<ge> costPaise
            then usageDone SourceWallet (Some costPaise) uid
                   (adjustWallet now' uid (- costPaise) users)
            else ((402, InsufficientBody ''Insufficient balance'' costPaise), users)))"

definition usageConsume ::
  "int \<Rightarrow> int \<Rightarrow> string \<Rightarrow> rat option \<Rightarrow> Users \<Rightarrow> Response \<times> Users" where
  "usageConsume now now' uid minutes users =
     (case minutes of
        None \<Rightarrow> ((400, ErrorBody ''Invalid minutes value''), users)
      | Some usageMinutes \<Rightarrow>
          if usageMinutes \<le> 0 then ((400, ErrorBody ''Invalid minutes value''), users)
          else
            (case loadUser uid users of
               None \<Rightarrow> ((404, ErrorBody ''User not found''), users)
             | Some user \<Rightarrow>
                 (case activePlan user of
                    Some plan \<Rightarrow>
                      if remainingMinutes plan \<ge> usageMinutes
                      then usageDone SourcePlan None uid
                             (activatePlan now' uid
                                (plan\<lparr>remainingMinutes := remainingMinutes plan - usageMinutes\<rparr>)
                                users)
                      else usageAfterPlan now now' uid usageMinutes user users
                  | None \<Rightarrow> usageAfterPlan now now' uid usageMinutes user users)))"

section \<open>Sequences of ledger operations\<close>

text \<open>
  The operations that \<open>userStore.ts\<close> exports, as data, so that a property can be stated
  for every sequence of them. Each is paired with the clock reading at which it runs.
\<close>

datatype LedgerOp =
    GetOrCreateUser string "Profile option"
  | RecordPayment string PaymentData
  | ActivatePlan string ActivePlan
  | SetTrialInfo string TrialInfo
  | AdjustWallet string int
  | ClearTrial string
  | EnsureActivePlanMinutes string rat
  | ConsumeTrialMinutes string rat
  | LoadUser string

fun applyOp :: "int \<times> LedgerOp \<Rightarrow> Users \<Rightarrow> Users" where
  "applyOp (now, GetOrCreateUser uid profile) users = snd (getOrCreateUser now uid profile users)"
| "applyOp (now, RecordPayment uid d) users = snd (recordPayment now uid d users)"
| "applyOp (now, ActivatePlan uid plan) users = snd (activatePlan now uid plan users)"
| "applyOp (now, SetTrialInfo uid t) users = snd (setTrialInfo now uid t users)"
| "applyOp (now, AdjustWallet uid deltaPaise) users = snd (adjustWallet now uid deltaPaise users)"
| "applyOp (now, ClearTrial uid) users = snd (clearTrial now uid users)"
| "applyOp (now, EnsureActivePlanMinutes uid minutes) users =
     snd (ensureActivePlanMinutes now uid minutes users)"
| "applyOp (now, ConsumeTrialMinutes uid minutes) users =
     snd (consumeTrialMinutes now uid minutes users)"
| "applyOp (now, LoadUser uid) users = users"

fun runOps :: "(int \<times> LedgerOp) list \<Rightarrow> Users \<Rightarrow> Users" where
  "runOps [] users = users"
| "runOps (op # ops) users = runOps ops (applyOp op users)"

text \<open>The wallet invariant of the document: no stored balance is negative.\<close>

definition walletsNonNegative :: "Users \<Rightarrow> bool" where
  "walletsNonNegative users = (\<forall>uid user. users uid = Some user \<longrightarrow> 0 \<le> walletBalancePaise user)"

text \<open>The trial invariant of the document: no stored trial is over its cap.\<close>

definition trialsWithinCap :: "Users \<Rightarrow> bool" where
  "trialsWithinCap users =
     (\<forall>uid user t. users uid = Some user \<longrightarrow> trial user = Some t
        \<longrightarrow> consumedMinutes t \<le> maxMinutes t)"

section \<open>Scenario data\<close>

text \<open>
  The account of the entitlement fallback scenario among the spec's testable properties:
  a plan with no minutes left, an active trial at 59 of 60 minutes, 50 paise in the wallet.
\<close>

definition fallbackAccount :: UserAccount where
  "fallbackAccount =
     \<lparr>userId = ''u1'', email = None, name = None, picture = None,
      walletBalancePaise = 50,
      trial = Some \<lparr>startedAt = 0, expiresAt = 172800000, consumedMinutes = 59,
                     active = True, maxMinutes = 60\<rparr>,
      activePlan = Some \<lparr>planId = EditorBasic, activatedAt = 0,
                          planExpiresAt = Some 2592000000, remainingMinutes = 0\<rparr>,
      paymentHistory = [], createdAt = 0, updatedAt = 0\<rparr>"

definition fallbackUsers :: Users where
  "fallbackUsers = [''u1'' \<mapsto> fallbackAccount]"

text \<open>
  An account whose plan still holds 10 minutes although its \<open>expiresAt\<close> (500) lies in the
  past of every clock reading used below.
\<close>

definition planAccount :: UserAccount where
  "planAccount =
     \<lparr>userId = ''u2'', email = None, name = None, picture = None,
      walletBalancePaise = 500,
      trial = None,
      activePlan = Some \<lparr>planId = EditorBasic, activatedAt = 0,
                          planExpiresAt = Some 500, remainingMinutes = 10\<rparr>,
      paymentHistory = [], createdAt = 0, updatedAt = 0\<rparr>"

definition planUsers :: Users where
  "planUsers = [''u2'' \<mapsto> planAccount]"

text \<open>An account whose trial is stored as active but expired at time 1000.\<close>

definition expiredTrialAccount :: UserAccount where
  "expiredTrialAccount =
     \<lparr>userId = ''u3'', email = None, name = None, picture = None,
      walletBalancePaise = 500,
      trial = Some \<lparr>startedAt = 0, expiresAt = 1000, consumedMinutes = 0,
                     active = True, maxMinutes = 60\<rparr>,
      activePlan = None,
      paymentHistory = [], createdAt = 0, updatedAt = 0\<rparr>"

definition expiredTrialUsers :: Users where
  "expiredTrialUsers = [''u3'' \<mapsto> expiredTrialAccount]"

text \<open>
  A top-up confirmation for order \<open>order_1\<close> and payment \<open>pay_1\<close> whose signature was not
  produced with the gateway secret.
\<close>

definition forgedTopUp :: ConfirmRequest where
  "forgedTopUp =
     \<lparr>razorpay_order_id = ''order_1'', razorpay_payment_id = ''pay_1'',
      razorpay_signature = ''forged'', intent = IntentWallet,
      req_planId = None, req_amountInPaise = Some 10000\<rparr>"

text \<open>
  To state that nothing depends on a plan's \<open>expiresAt\<close>: the account, the document, the
  public view and a response with every plan's \<open>expiresAt\<close> overwritten by \<open>null\<close>. An
  operation that gives the same result, up to this overwriting, on the overwritten
  document as on the original cannot have consulted the field. A mutator is \<open>blind\<close> when
  it has this property.
\<close>

definition forgetPlanExpiry :: "UserAccount \<Rightarrow> UserAccount" where
  "forgetPlanExpiry user =
     user\<lparr>activePlan := map_option (\<lambda>plan. plan\<lparr>planExpiresAt := None\<rparr>) (activePlan user)\<rparr>"

definition forgetPlanExpiries :: "Users \<Rightarrow> Users" where
  "forgetPlanExpiries users = (\<lambda>uid. map_option forgetPlanExpiry (users uid))"

definition forgetPlanExpiryPublic :: "PublicUser \<Rightarrow> PublicUser" where
  "forgetPlanExpiryPublic pu =
     pu\<lparr>pub_activePlan := map_option (\<lambda>plan. plan\<lparr>planExpiresAt := None\<rparr>) (pub_activePlan pu)\<rparr>"

fun forgetPlanExpiryResponse :: "Response \<Rightarrow> Response" where
  "forgetPlanExpiryResponse (code, UserBody pu) = (code, UserBody (map_option forgetPlanExpiryPublic pu))"
| "forgetPlanExpiryResponse (code, UsageBody source pu debited) =
     (code, UsageBody source (map_option forgetPlanExpiryPublic pu) debited)"
| "forgetPlanExpiryResponse (code, StatusBody pu) = (code, StatusBody (forgetPlanExpiryPublic pu))"
| "forgetPlanExpiryResponse (code, body) = (code, body)"

definition blind :: "(UserAccount \<Rightarrow> error + UserAccount) \<Rightarrow> bool" where
  "blind mutator = (\<forall>user. map_sum id forgetPlanExpiry (mutator (forgetPlanExpiry user))
                            = map_sum id forgetPlanExpiry (mutator user))"

section \<open>Verified properties\<close>

subsection \<open>The wallet never goes negative\<close>

lemma getOrCreateUser_wallet:
  "walletsNonNegative users \<Longrightarrow> walletsNonNegative (snd (getOrCreateUser now uid profile users))"
  by (auto simp: walletsNonNegative_def getOrCreateUser_def Let_def split: option.splits if_splits)

lemma updateUser_wallet:
  assumes "walletsNonNegative users"
    and "\<And>user mutated. 0 \<le> walletBalancePaise user \<Longrightarrow> mutator user = Inr mutated
           \<Longrightarrow> 0 \<le> walletBalancePaise mutated"
  shows "walletsNonNegative (snd (updateUser now uid mutator users))"
  using assms
  by (auto simp: walletsNonNegative_def updateUser_def Let_def split: option.splits sum.splits if_splits)

lemma applyOp_wallet:
  "walletsNonNegative users \<Longrightarrow> walletsNonNegative (applyOp op users)"
proof (cases op)
  case (Pair now lop)
  assume inv: "walletsNonNegative users"
  show ?thesis
  proof (cases lop)
    case (GetOrCreateUser uid profile)
    with Pair inv show ?thesis by (simp add: getOrCreateUser_wallet)
  next
    case (RecordPayment uid d)
    with Pair inv show ?thesis
      by (auto simp: recordPayment_def recordPayment_mutator_def intro!: updateUser_wallet)
  next
    case (ActivatePlan uid plan)
    with Pair inv show ?thesis
      by (auto simp: activatePlan_def activatePlan_mutator_def intro!: updateUser_wallet)
  next
    case (SetTrialInfo uid t)
    with Pair inv show ?thesis
      by (auto simp: setTrialInfo_def setTrialInfo_mutator_def intro!: updateUser_wallet)
  next
    case (AdjustWallet uid deltaPaise)
    with Pair inv show ?thesis
      by (auto simp: adjustWallet_def adjustWallet_mutator_def Let_def split: if_splits
               intro!: updateUser_wallet)
  next
    case (ClearTrial uid)
    with Pair inv show ?thesis
      by (auto simp: clearTrial_def clearTrial_mutator_def intro!: updateUser_wallet)
  next
    case (EnsureActivePlanMinutes uid minutes)
    with Pair inv show ?thesis
      by (auto simp: ensureActivePlanMinutes_def ensureActivePlanMinutes_mutator_def
               split: option.splits if_splits intro!: updateUser_wallet)
  next
    case (ConsumeTrialMinutes uid minutes)
    with Pair inv show ?thesis
      by (auto simp: consumeTrialMinutes_def consumeTrialMinutes_mutator_def
               split: option.splits if_splits intro!: updateUser_wallet)
  next
    case (LoadUser uid)
    with Pair inv show ?thesis by simp
  qed
qed

lemma runOps_wallet:
  "walletsNonNegative users \<Longrightarrow> walletsNonNegative (runOps ops users)"
  by (induction ops arbitrary: users) (auto simp: applyOp_wallet)

lemma adjustWallet_overdraft:
  "users uid = Some user \<Longrightarrow> walletBalancePaise user + deltaPaise < 0 \<Longrightarrow>
   adjustWallet now uid deltaPaise users = (Inl (Error ''Insufficient wallet balance''), users)"
  by (simp add: adjustWallet_def updateUser_def adjustWallet_mutator_def Let_def)

lemma fallbackUsers_wallet: "walletsNonNegative fallbackUsers"
  by (simp add: walletsNonNegative_def fallbackUsers_def fallbackAccount_def)

text \<open>
  Claim C2. From a document in which no balance is negative (the empty document that
  \<open>ensureDataFile\<close> creates is one), no balance is negative after any prefix of any
  sequence of ledger operations. An \<open>adjustWallet\<close> whose delta would take the balance
  below zero throws \<open>Insufficient wallet balance\<close> and returns the document it was given:
  the write happens only after the mutator has returned.
\<close>

theorem wallet_never_negative:
  assumes "walletsNonNegative users"
  shows "(\<forall>n. walletsNonNegative (runOps (take n ops) users))
       \<and> (users uid = Some user \<and> walletBalancePaise user + deltaPaise < 0 \<longrightarrow>
            adjustWallet now uid deltaPaise users
              = (Inl (Error ''Insufficient wallet balance''), users))"
  using assms by (simp add: runOps_wallet adjustWallet_overdraft)

theorem wallet_never_negative_witness:
  "walletsNonNegative fallbackUsers
   \<and> walletsNonNegative
        (runOps (take 2 [(5, AdjustWallet ''u1'' 150), (6, AdjustWallet ''u1'' (- 500))])
           fallbackUsers)
   \<and> fallbackUsers ''u1'' = Some fallbackAccount
   \<and> walletBalancePaise fallbackAccount + (- 500) < 0
   \<and> adjustWallet 7 ''u1'' (- 500) fallbackUsers
        = (Inl (Error ''Insufficient wallet balance''), fallbackUsers)"
proof -
  have a: "fallbackUsers ''u1'' = Some fallbackAccount"
    by (simp add: fallbackUsers_def)
  have b: "walletBalancePaise fallbackAccount + (- 500) < 0"
    by (simp add: fallbackAccount_def)
  note t = wallet_never_negative [OF fallbackUsers_wallet,
      of "[(5, AdjustWallet ''u1'' 150), (6, AdjustWallet ''u1'' (- 500))]"
         "''u1''" fallbackAccount "- 500" 7]
  from t a b show ?thesis
    using fallbackUsers_wallet by blast
qed

subsection \<open>The trial never goes over its cap\<close>

lemma consumeTrialMinutes_success:
  "consumeTrialMinutes now uid minutes users = (Inr user', users') \<Longrightarrow>
   \<exists>user t. users uid = Some user \<and> trial user = Some t
     \<and> consumedMinutes t + minutes \<le> maxMinutes t
     \<and> user' = user\<lparr>trial := Some (t\<lparr>consumedMinutes := consumedMinutes t + minutes\<rparr>),
                     updatedAt := now\<rparr>
     \<and> users' = users(uid \<mapsto> user')"
  by (auto simp: consumeTrialMinutes_def updateUser_def consumeTrialMinutes_mutator_def Let_def
           split: option.splits if_splits)

lemma consumeTrialMinutes_over_cap:
  "users uid = Some user \<Longrightarrow> trial user = Some t \<Longrightarrow>
   consumedMinutes t + minutes > maxMinutes t \<Longrightarrow>
   \<exists>e. consumeTrialMinutes now uid minutes users = (Inl e, users)"
  by (auto simp: consumeTrialMinutes_def updateUser_def consumeTrialMinutes_mutator_def)

lemma consumeTrialMinutes_within_cap:
  "trialsWithinCap users \<Longrightarrow> trialsWithinCap (snd (consumeTrialMinutes now uid minutes users))"
  by (auto simp: trialsWithinCap_def consumeTrialMinutes_def updateUser_def
                 consumeTrialMinutes_mutator_def Let_def
           split: option.splits if_splits)

lemma fallbackUsers_trial: "trialsWithinCap fallbackUsers"
  by (simp add: trialsWithinCap_def fallbackUsers_def fallbackAccount_def)

text \<open>
  Claim C6. A \<open>consumeTrialMinutes\<close> call keeps every stored trial within its cap; a call
  that succeeds stores a trial with \<open>consumedMinutes \<le> maxMinutes\<close>; and a call for an
  amount that would push \<open>consumedMinutes\<close> past \<open>maxMinutes\<close> throws and returns the
  document it was given, so the stored trial record is as before.
\<close>

theorem trial_never_over_cap:
  "(trialsWithinCap users \<longrightarrow> trialsWithinCap (snd (consumeTrialMinutes now uid minutes users)))
   \<and> (\<forall>user' users'. consumeTrialMinutes now uid minutes users = (Inr user', users') \<longrightarrow>
         (\<exists>t'. trial user' = Some t' \<and> users' uid = Some user'
               \<and> consumedMinutes t' \<le> maxMinutes t'))
   \<and> (\<forall>user t. users uid = Some user \<and> trial user = Some t
          \<and> consumedMinutes t + minutes > maxMinutes t \<longrightarrow>
          (\<exists>e. consumeTrialMinutes now uid minutes users = (Inl e, users)))"
proof (intro conjI allI impI)
  assume "trialsWithinCap users"
  then show "trialsWithinCap (snd (consumeTrialMinutes now uid minutes users))"
    by (rule consumeTrialMinutes_within_cap)
next
  fix user' users'
  assume "consumeTrialMinutes now uid minutes users = (Inr user', users')"
  from consumeTrialMinutes_success [OF this]
  show "\<exists>t'. trial user' = Some t' \<and> users' uid = Some user' \<and> consumedMinutes t' \<le> maxMinutes t'"
    by auto
next
  fix user t
  assume "users uid = Some user \<and> trial user = Some t \<and> consumedMinutes t + minutes > maxMinutes t"
  then show "\<exists>e. consumeTrialMinutes now uid minutes users = (Inl e, users)"
    using consumeTrialMinutes_over_cap by blast
qed

theorem trial_never_over_cap_witness:
  "trialsWithinCap fallbackUsers
   \<and> trialsWithinCap (snd (consumeTrialMinutes 1000 ''u1'' 1 fallbackUsers))
   \<and> (\<exists>user'. fst (consumeTrialMinutes 1000 ''u1'' 1 fallbackUsers) = Inr user'
        \<and> map_option consumedMinutes (trial user') = Some 60)
   \<and> (\<exists>e. consumeTrialMinutes 1000 ''u1'' 2 fallbackUsers = (Inl e, fallbackUsers))"
proof -
  note t1 = trial_never_over_cap [of fallbackUsers 1000 "''u1''" 1]
  note t2 = trial_never_over_cap [of fallbackUsers 1000 "''u1''" 2]
  have a: "trialsWithinCap (snd (consumeTrialMinutes 1000 ''u1'' 1 fallbackUsers))"
    using t1 fallbackUsers_trial by blast
  have b: "\<exists>user'. fst (consumeTrialMinutes 1000 ''u1'' 1 fallbackUsers) = Inr user'
        \<and> map_option consumedMinutes (trial user') = Some 60"
    by (simp add: consumeTrialMinutes_def updateUser_def consumeTrialMinutes_mutator_def Let_def
                  fallbackUsers_def fallbackAccount_def)
  have c: "fallbackUsers ''u1'' = Some fallbackAccount
           \<and> trial fallbackAccount
               = Some \<lparr>startedAt = 0, expiresAt = 172800000, consumedMinutes = 59,
                       active = True, maxMinutes = 60\<rparr>
           \<and> consumedMinutes \<lparr>startedAt = 0, expiresAt = 172800000, consumedMinutes = 59,
                       active = True, maxMinutes = 60\<rparr> + 2
               > maxMinutes \<lparr>startedAt = 0, expiresAt = 172800000, consumedMinutes = 59,
                       active = True, maxMinutes = 60\<rparr>"
    by (simp add: fallbackUsers_def fallbackAccount_def)
  have d: "\<exists>e. consumeTrialMinutes 1000 ''u1'' 2 fallbackUsers = (Inl e, fallbackUsers)"
    using t2 c by blast
  show ?thesis using a b d fallbackUsers_trial by blast
qed

subsection \<open>Entitlement resolution: plan, then trial, then wallet\<close>

lemma usageConsume_plan:
  assumes "users uid = Some user" "0 < m"
    and "activePlan user = Some plan" "remainingMinutes plan \<ge> m"
  shows "usageConsume now now' uid (Some m) users
    = ((200, UsageBody SourcePlan
          (Some (publicUser (user\<lparr>activePlan := Some (plan\<lparr>remainingMinutes := remainingMinutes plan - m\<rparr>),
                                  updatedAt := now'\<rparr>))) None),
       users(uid \<mapsto> user\<lparr>activePlan := Some (plan\<lparr>remainingMinutes := remainingMinutes plan - m\<rparr>),
                           updatedAt := now'\<rparr>))"
  using assms
  by (simp add: usageConsume_def loadUser_def usageDone_def activatePlan_def updateUser_def
                activatePlan_mutator_def Let_def)

lemma usageConsume_skips_plan:
  assumes "users uid = Some user" "0 < m"
    and "\<forall>plan. activePlan user = Some plan \<longrightarrow> remainingMinutes plan < m"
  shows "usageConsume now now' uid (Some m) users = usageAfterPlan now now' uid m user users"
  using assms
  by (auto simp: usageConsume_def loadUser_def split: option.splits)

lemma usageAfterPlan_trial:
  assumes "users uid = Some user" "trial user = Some t"
    and "trialCovers now user m" "\<not> expiresAt t < now'"
  shows "usageAfterPlan now now' uid m user users
    = ((200, UsageBody SourceTrial
          (Some (publicUser (user\<lparr>trial := Some (t\<lparr>consumedMinutes := consumedMinutes t + m\<rparr>),
                                  updatedAt := now'\<rparr>))) None),
       users(uid \<mapsto> user\<lparr>trial := Some (t\<lparr>consumedMinutes := consumedMinutes t + m\<rparr>),
                           updatedAt := now'\<rparr>))"
  using assms
  by (simp add: usageAfterPlan_def trialCovers_def loadUser_def usageDone_def
                consumeTrialMinutes_def updateUser_def consumeTrialMinutes_mutator_def Let_def)

lemma usageAfterPlan_wallet:
  assumes "users uid = Some user" "0 < m"
    and "\<not> trialCovers now user m" "walletBalancePaise user \<ge> \<lceil>m\<rceil> * 100"
  shows "usageAfterPlan now now' uid m user users
    = ((200, UsageBody SourceWallet
          (Some (publicUser (user\<lparr>walletBalancePaise := walletBalancePaise user - \<lceil>m\<rceil> * 100,
                                  updatedAt := now'\<rparr>))) (Some (\<lceil>m\<rceil> * 100))),
       users(uid \<mapsto> user\<lparr>walletBalancePaise := walletBalancePaise user - \<lceil>m\<rceil> * 100,
                           updatedAt := now'\<rparr>))"
  using assms
  by (simp add: usageAfterPlan_def loadUser_def usageDone_def WALLET_COST_PER_MINUTE_PAISE_def
                adjustWallet_def updateUser_def adjustWallet_mutator_def Let_def)

lemma usageAfterPlan_insufficient:
  assumes "\<not> trialCovers now user m" "walletBalancePaise user < \<lceil>m\<rceil> * 100"
  shows "usageAfterPlan now now' uid m user users
    = ((402, InsufficientBody ''Insufficient balance'' (\<lceil>m\<rceil> * 100)), users)"
  using assms
  by (simp add: usageAfterPlan_def WALLET_COST_PER_MINUTE_PAISE_def Let_def)


text \<open>
  Claim C1. For a request of \<open>m > 0\<close> minutes on a stored account: when the account has a
  plan with \<open>remainingMinutes \<ge> m\<close>, exactly \<open>m\<close> minutes are taken from the plan, the
  response is 200 with \<open>source = plan\<close>, whatever the trial and the wallet hold; when the
  plan does not cover \<open>m\<close>, the trial conditions fail and the wallet holds less than
  \<open>ceil(m) * 100\<close> paise, the response is 402 \<open>Insufficient balance\<close> with
  \<open>requiredPaise = ceil(m) * 100\<close> and the document is the one the handler was given. In
  the scenario of the spec (no plan minutes left, active trial at 59 of 60, wallet 50,
  request 2) the response is 402 with \<open>requiredPaise = 200\<close> and nothing changes. Between
  the two, the order is trial before wallet: when the plan does not cover \<open>m\<close> and the
  trial conditions hold (and the trial has not expired when the store operation reads the
  clock), the trial pays, whatever the wallet holds; when they fail and the wallet holds at
  least \<open>ceil(m) * 100\<close> paise, the wallet pays that amount.
\<close>

theorem entitlement_order:
  assumes "users uid = Some user" and "0 < m"
  shows "(\<forall>plan. activePlan user = Some plan \<and> remainingMinutes plan \<ge> m \<longrightarrow>
            usageConsume now now' uid (Some m) users
              = ((200, UsageBody SourcePlan
                    (Some (publicUser (user\<lparr>activePlan :=
                              Some (plan\<lparr>remainingMinutes := remainingMinutes plan - m\<rparr>),
                            updatedAt := now'\<rparr>))) None),
                 users(uid \<mapsto> user\<lparr>activePlan :=
                              Some (plan\<lparr>remainingMinutes := remainingMinutes plan - m\<rparr>),
                            updatedAt := now'\<rparr>)))
       \<and> ((\<forall>plan. activePlan user = Some plan \<longrightarrow> remainingMinutes plan < m)
            \<and> \<not> trialCovers now user m
            \<and> walletBalancePaise user < \<lceil>m\<rceil> * WALLET_COST_PER_MINUTE_PAISE \<longrightarrow>
            usageConsume now now' uid (Some m) users
              = ((402, InsufficientBody ''Insufficient balance''
                         (\<lceil>m\<rceil> * WALLET_COST_PER_MINUTE_PAISE)), users))
       \<and> ((\<exists>plan t. activePlan user = Some plan \<and> remainingMinutes plan = 0
              \<and> trial user = Some t \<and> active t \<and> consumedMinutes t = 59 \<and> maxMinutes t = 60)
            \<and> walletBalancePaise user = 50 \<and> m = 2 \<longrightarrow>
            usageConsume now now' uid (Some m) users
              = ((402, InsufficientBody ''Insufficient balance'' 200), users))
       \<and> (\<forall>t. (\<forall>plan. activePlan user = Some plan \<longrightarrow> remainingMinutes plan < m)
              \<and> trial user = Some t \<and> trialCovers now user m \<and> now' \<le> expiresAt t \<longrightarrow>
            usageConsume now now' uid (Some m) users
              = ((200, UsageBody SourceTrial
                    (Some (publicUser (user\<lparr>trial :=
                              Some (t\<lparr>consumedMinutes := consumedMinutes t + m\<rparr>),
                            updatedAt := now'\<rparr>))) None),
                 users(uid \<mapsto> user\<lparr>trial :=
                              Some (t\<lparr>consumedMinutes := consumedMinutes t + m\<rparr>),
                            updatedAt := now'\<rparr>)))
       \<and> ((\<forall>plan. activePlan user = Some plan \<longrightarrow> remainingMinutes plan < m)
            \<and> \<not> trialCovers now user m
            \<and> \<lceil>m\<rceil> * WALLET_COST_PER_MINUTE_PAISE \<le> walletBalancePaise user \<longrightarrow>
            usageConsume now now' uid (Some m) users
              = ((200, UsageBody SourceWallet
                    (Some (publicUser (user\<lparr>walletBalancePaise :=
                              walletBalancePaise user - \<lceil>m\<rceil> * WALLET_COST_PER_MINUTE_PAISE,
                            updatedAt := now'\<rparr>)))
                    (Some (\<lceil>m\<rceil> * WALLET_COST_PER_MINUTE_PAISE))),
                 users(uid \<mapsto> user\<lparr>walletBalancePaise :=
                              walletBalancePaise user - \<lceil>m\<rceil> * WALLET_COST_PER_MINUTE_PAISE,
                            updatedAt := now'\<rparr>)))"
proof (intro conjI allI impI)
  fix plan
  assume "activePlan user = Some plan \<and> remainingMinutes plan \<ge> m"
  with assms show "usageConsume now now' uid (Some m) users
              = ((200, UsageBody SourcePlan
                    (Some (publicUser (user\<lparr>activePlan :=
                              Some (plan\<lparr>remainingMinutes := remainingMinutes plan - m\<rparr>),
                            updatedAt := now'\<rparr>))) None),
                 users(uid \<mapsto> user\<lparr>activePlan :=
                              Some (plan\<lparr>remainingMinutes := remainingMinutes plan - m\<rparr>),
                            updatedAt := now'\<rparr>))"
    by (simp add: usageConsume_plan)
next
  assume h: "(\<forall>plan. activePlan user = Some plan \<longrightarrow> remainingMinutes plan < m)
            \<and> \<not> trialCovers now user m
            \<and> walletBalancePaise user < \<lceil>m\<rceil> * WALLET_COST_PER_MINUTE_PAISE"
  then have "usageConsume now now' uid (Some m) users = usageAfterPlan now now' uid m user users"
    using assms by (simp add: usageConsume_skips_plan)
  with h show "usageConsume now now' uid (Some m) users
              = ((402, InsufficientBody ''Insufficient balance''
                         (\<lceil>m\<rceil> * WALLET_COST_PER_MINUTE_PAISE)), users)"
    by (simp add: usageAfterPlan_insufficient WALLET_COST_PER_MINUTE_PAISE_def)
next
  assume h: "(\<exists>plan t. activePlan user = Some plan \<and> remainingMinutes plan = 0
              \<and> trial user = Some t \<and> active t \<and> consumedMinutes t = 59 \<and> maxMinutes t = 60)
            \<and> walletBalancePaise user = 50 \<and> m = 2"
  then have skip: "\<forall>plan. activePlan user = Some plan \<longrightarrow> remainingMinutes plan < m"
    by auto
  from h have notrial: "\<not> trialCovers now user m"
    by (auto simp: trialCovers_def)
  from h have poor: "walletBalancePaise user < \<lceil>m\<rceil> * 100"
    by simp
  have "usageConsume now now' uid (Some m) users = usageAfterPlan now now' uid m user users"
    using assms skip by (simp add: usageConsume_skips_plan)
  with usageAfterPlan_insufficient [OF notrial poor] h
  show "usageConsume now now' uid (Some m) users
          = ((402, InsufficientBody ''Insufficient balance'' 200), users)"
    by simp
next
  fix t
  assume h: "(\<forall>plan. activePlan user = Some plan \<longrightarrow> remainingMinutes plan < m)
              \<and> trial user = Some t \<and> trialCovers now user m \<and> now' \<le> expiresAt t"
  then have "usageConsume now now' uid (Some m) users = usageAfterPlan now now' uid m user users"
    using assms by (simp add: usageConsume_skips_plan)
  moreover from h have "\<not> expiresAt t < now'" by simp
  ultimately show "usageConsume now now' uid (Some m) users
              = ((200, UsageBody SourceTrial
                    (Some (publicUser (user\<lparr>trial :=
                              Some (t\<lparr>consumedMinutes := consumedMinutes t + m\<rparr>),
                            updatedAt := now'\<rparr>))) None),
                 users(uid \<mapsto> user\<lparr>trial :=
                              Some (t\<lparr>consumedMinutes := consumedMinutes t + m\<rparr>),
                            updatedAt := now'\<rparr>))"
    using h assms by (simp add: usageAfterPlan_trial)
next
  assume h: "(\<forall>plan. activePlan user = Some plan \<longrightarrow> remainingMinutes plan < m)
            \<and> \<not> trialCovers now user m
            \<and> \<lceil>m\<rceil> * WALLET_COST_PER_MINUTE_PAISE \<le> walletBalancePaise user"
  then have "usageConsume now now' uid (Some m) users = usageAfterPlan now now' uid m user users"
    using assms by (simp add: usageConsume_skips_plan)
  then show "usageConsume now now' uid (Some m) users
              = ((200, UsageBody SourceWallet
                    (Some (publicUser (user\<lparr>walletBalancePaise :=
                              walletBalancePaise user - \<lceil>m\<rceil> * WALLET_COST_PER_MINUTE_PAISE,
                            updatedAt := now'\<rparr>)))
                    (Some (\<lceil>m\<rceil> * WALLET_COST_PER_MINUTE_PAISE))),
                 users(uid \<mapsto> user\<lparr>walletBalancePaise :=
                              walletBalancePaise user - \<lceil>m\<rceil> * WALLET_COST_PER_MINUTE_PAISE,
                            updatedAt := now'\<rparr>))"
    using h assms by (simp add: usageAfterPlan_wallet WALLET_COST_PER_MINUTE_PAISE_def)
qed

theorem entitlement_order_witness:
  "planUsers ''u2'' = Some planAccount
   \<and> fallbackUsers ''u1'' = Some fallbackAccount
   \<and> fst (fst (usageConsume 1000 1001 ''u2'' (Some 3) planUsers)) = 200
   \<and> map_option (map_option remainingMinutes \<circ> activePlan)
        (snd (usageConsume 1000 1001 ''u2'' (Some 3) planUsers) ''u2'') = Some (Some 7)
   \<and> usageConsume 1000 1001 ''u1'' (Some 2) fallbackUsers
        = ((402, InsufficientBody ''Insufficient balance'' 200), fallbackUsers)
   \<and> (\<exists>pu. fst (usageConsume 1000 1001 ''u1'' (Some 1) fallbackUsers)
               = (200, UsageBody SourceTrial pu None))
   \<and> (\<exists>pu. fst (usageConsume 2000 2001 ''u3'' (Some 1) expiredTrialUsers)
               = (200, UsageBody SourceWallet pu (Some 100)))"
proof -
  have a: "planUsers ''u2'' = Some planAccount" by (simp add: planUsers_def)
  have b: "fallbackUsers ''u1'' = Some fallbackAccount" by (simp add: fallbackUsers_def)
  have m3: "(0::rat) < 3" and m2: "(0::rat) < 2" by simp_all
  note p = entitlement_order [where users = planUsers and uid = "''u2''" and user = planAccount
      and m = 3 and now = 1000 and now' = 1001, OF a m3]
  note f = entitlement_order [where users = fallbackUsers and uid = "''u1''" and user = fallbackAccount
      and m = 2 and now = 1000 and now' = 1001, OF b m2]
  have pa: "activePlan planAccount
              = Some \<lparr>planId = EditorBasic, activatedAt = 0, planExpiresAt = Some 500,
                      remainingMinutes = 10\<rparr>
            \<and> remainingMinutes \<lparr>planId = EditorBasic, activatedAt = 0, planExpiresAt = Some 500,
                      remainingMinutes = 10\<rparr> \<ge> 3"
    by (simp add: planAccount_def)
  from p pa have p': "usageConsume 1000 1001 ''u2'' (Some 3) planUsers
    = ((200, UsageBody SourcePlan
          (Some (publicUser (planAccount\<lparr>activePlan :=
               Some (\<lparr>planId = EditorBasic, activatedAt = 0, planExpiresAt = Some 500,
                      remainingMinutes = 10\<rparr>\<lparr>remainingMinutes := remainingMinutes \<lparr>planId = EditorBasic, activatedAt = 0, planExpiresAt = Some 500,
                      remainingMinutes = 10\<rparr> - 3\<rparr>), updatedAt := 1001\<rparr>))) None),
        planUsers(''u2'' \<mapsto> planAccount\<lparr>activePlan :=
               Some (\<lparr>planId = EditorBasic, activatedAt = 0, planExpiresAt = Some 500,
                      remainingMinutes = 10\<rparr>\<lparr>remainingMinutes := remainingMinutes \<lparr>planId = EditorBasic, activatedAt = 0, planExpiresAt = Some 500,
                      remainingMinutes = 10\<rparr> - 3\<rparr>), updatedAt := 1001\<rparr>))"
    by blast
  have fa: "(\<forall>plan. activePlan fallbackAccount = Some plan \<longrightarrow> remainingMinutes plan < 2)
            \<and> \<not> trialCovers 1000 fallbackAccount 2
            \<and> walletBalancePaise fallbackAccount < \<lceil>2::rat\<rceil> * WALLET_COST_PER_MINUTE_PAISE"
    by (simp add: fallbackAccount_def trialCovers_def WALLET_COST_PER_MINUTE_PAISE_def)
  from f fa have f': "usageConsume 1000 1001 ''u1'' (Some 2) fallbackUsers
      = ((402, InsufficientBody ''Insufficient balance''
                         (\<lceil>2::rat\<rceil> * WALLET_COST_PER_MINUTE_PAISE)), fallbackUsers)"
    by blast
  have m1: "(0::rat) < 1" by simp
  note g = entitlement_order [where users = fallbackUsers and uid = "''u1''" and user = fallbackAccount
      and m = 1 and now = 1000 and now' = 1001, OF b m1]
  have ga: "(\<forall>plan. activePlan fallbackAccount = Some plan \<longrightarrow> remainingMinutes plan < 1)
      \<and> trial fallbackAccount
          = Some \<lparr>startedAt = 0, expiresAt = 172800000, consumedMinutes = 59,
                  active = True, maxMinutes = 60\<rparr>
      \<and> trialCovers 1000 fallbackAccount 1
      \<and> 1001 \<le> expiresAt \<lparr>startedAt = 0, expiresAt = 172800000, consumedMinutes = 59,
                  active = True, maxMinutes = 60\<rparr>"
    by (simp add: fallbackAccount_def trialCovers_def)
  from g ga have g': "\<exists>pu. fst (usageConsume 1000 1001 ''u1'' (Some 1) fallbackUsers)
               = (200, UsageBody SourceTrial pu None)"
    by (metis fst_conv)
  have c: "expiredTrialUsers ''u3'' = Some expiredTrialAccount"
    by (simp add: expiredTrialUsers_def)
  note e = entitlement_order [where users = expiredTrialUsers and uid = "''u3''"
      and user = expiredTrialAccount and m = 1 and now = 2000 and now' = 2001, OF c m1]
  have ea: "(\<forall>plan. activePlan expiredTrialAccount = Some plan \<longrightarrow> remainingMinutes plan < 1)
      \<and> \<not> trialCovers 2000 expiredTrialAccount 1
      \<and> \<lceil>1::rat\<rceil> * WALLET_COST_PER_MINUTE_PAISE \<le> walletBalancePaise expiredTrialAccount"
    by (simp add: expiredTrialAccount_def trialCovers_def WALLET_COST_PER_MINUTE_PAISE_def)
  from e ea have "\<exists>pu. fst (usageConsume 2000 2001 ''u3'' (Some 1) expiredTrialUsers)
               = (200, UsageBody SourceWallet pu (Some (\<lceil>1::rat\<rceil> * WALLET_COST_PER_MINUTE_PAISE)))"
    by (metis fst_conv)
  then have e': "\<exists>pu. fst (usageConsume 2000 2001 ''u3'' (Some 1) expiredTrialUsers)
               = (200, UsageBody SourceWallet pu (Some 100))"
    by (simp add: WALLET_COST_PER_MINUTE_PAISE_def)
  show ?thesis
    using a b g' e' by (simp add: p' f' WALLET_COST_PER_MINUTE_PAISE_def)
qed


subsection \<open>Starting a trial\<close>

lemma startTrial_existing:
  "users uid = Some user \<Longrightarrow> trial user = Some t \<Longrightarrow>
   startTrial now now' uid users =
     ((if active t \<and> expiresAt t > now
       then (200, TrialBody t (Some ''Trial already active''))
       else (403, ErrorBody ''Trial already used'')), users)"
  by (simp add: startTrial_def loadUser_def)

lemma startTrial_fresh:
  "users uid = Some user \<Longrightarrow> trial user = None \<Longrightarrow>
   startTrial now now' uid users =
     ((200, TrialBody \<lparr>startedAt = now, expiresAt = now + TRIAL_DURATION_MS, consumedMinutes = 0,
                       active = True, maxMinutes = TRIAL_MINUTES\<rparr> None),
      users(uid \<mapsto> user\<lparr>trial := Some \<lparr>startedAt = now, expiresAt = now + TRIAL_DURATION_MS,
                         consumedMinutes = 0, active = True, maxMinutes = TRIAL_MINUTES\<rparr>,
                        updatedAt := now'\<rparr>))"
  by (simp add: startTrial_def loadUser_def setTrialInfo_def updateUser_def
                setTrialInfo_mutator_def Let_def)

text \<open>
  The claim C3 as stated fails for a trial that is still active and unexpired: the handler
  answers 200 with the stored trial and the message \<open>Trial already active\<close>, not 403.
\<close>

theorem start_trial_active_counterexample:
  "fallbackUsers ''u1'' = Some fallbackAccount
   \<and> trial fallbackAccount \<noteq> None
   \<and> startTrial 1000 1001 ''u1'' fallbackUsers
       = ((200, TrialBody \<lparr>startedAt = 0, expiresAt = 172800000, consumedMinutes = 59,
                           active = True, maxMinutes = 60\<rparr> (Some ''Trial already active'')),
          fallbackUsers)
   \<and> fst (fst (startTrial 1000 1001 ''u1'' fallbackUsers)) \<noteq> 403"
  by (simp add: startTrial_def loadUser_def fallbackUsers_def fallbackAccount_def)

text \<open>
  Claim C3, amended. A start-trial request on an account that already has a trial record
  never modifies the document. It is answered 403 \<open>Trial already used\<close> unless the stored
  trial is active and unexpired (\<open>expiresAt > now\<close>), in which case it is answered 200 with
  the stored trial and the message \<open>Trial already active\<close>. In particular a second
  start-trial, made once the first trial's \<open>expiresAt\<close> has been reached, is answered 403.
\<close>

theorem start_trial_once:
  "(users uid = Some user \<and> trial user = Some t \<longrightarrow>
      snd (startTrial now now' uid users) = users
      \<and> fst (startTrial now now' uid users)
          = (if active t \<and> expiresAt t > now
             then (200, TrialBody t (Some ''Trial already active''))
             else (403, ErrorBody ''Trial already used'')))
   \<and> (users uid = Some user \<and> trial user = None \<and> now + TRIAL_DURATION_MS \<le> later \<longrightarrow>
        startTrial later later' uid (snd (startTrial now now' uid users))
          = ((403, ErrorBody ''Trial already used''), snd (startTrial now now' uid users)))"
proof (intro conjI impI)
  assume "users uid = Some user \<and> trial user = Some t"
  then show "snd (startTrial now now' uid users) = users"
    by (simp add: startTrial_existing)
next
  assume "users uid = Some user \<and> trial user = Some t"
  then show "fst (startTrial now now' uid users)
          = (if active t \<and> expiresAt t > now
             then (200, TrialBody t (Some ''Trial already active''))
             else (403, ErrorBody ''Trial already used''))"
    by (simp add: startTrial_existing)
next
  assume h: "users uid = Some user \<and> trial user = None \<and> now + TRIAL_DURATION_MS \<le> later"
  then have first: "snd (startTrial now now' uid users)
      = users(uid \<mapsto> user\<lparr>trial := Some \<lparr>startedAt = now, expiresAt = now + TRIAL_DURATION_MS,
                         consumedMinutes = 0, active = True, maxMinutes = TRIAL_MINUTES\<rparr>,
                        updatedAt := now'\<rparr>)"
    by (simp add: startTrial_fresh)
  show "startTrial later later' uid (snd (startTrial now now' uid users))
          = ((403, ErrorBody ''Trial already used''), snd (startTrial now now' uid users))"
    unfolding first
    using h
    by (subst startTrial_existing [where t = "\<lparr>startedAt = now, expiresAt = now + TRIAL_DURATION_MS,
                         consumedMinutes = 0, active = True, maxMinutes = TRIAL_MINUTES\<rparr>"]) auto
qed

theorem start_trial_once_witness:
  "expiredTrialUsers ''u3'' = Some expiredTrialAccount
   \<and> startTrial 2000 2001 ''u3'' expiredTrialUsers
       = ((403, ErrorBody ''Trial already used''), expiredTrialUsers)
   \<and> startTrial 172800005 172800006 ''u'' (snd (startTrial 5 6 ''u'' (snd (getOrCreateUser 1 ''u'' None Map.empty))))
       = ((403, ErrorBody ''Trial already used''), snd (startTrial 5 6 ''u'' (snd (getOrCreateUser 1 ''u'' None Map.empty))))"
proof -
  have a: "expiredTrialUsers ''u3'' = Some expiredTrialAccount
           \<and> trial expiredTrialAccount = Some \<lparr>startedAt = 0, expiresAt = 1000, consumedMinutes = 0,
                     active = True, maxMinutes = 60\<rparr>"
    by (simp add: expiredTrialUsers_def expiredTrialAccount_def)
  note t = start_trial_once [where users = expiredTrialUsers and uid = "''u3''"
      and user = expiredTrialAccount and now = 2000 and now' = 2001
      and t = "\<lparr>startedAt = 0, expiresAt = 1000, consumedMinutes = 0,
                     active = True, maxMinutes = 60\<rparr>"]
  from t a have b: "startTrial 2000 2001 ''u3'' expiredTrialUsers
       = ((403, ErrorBody ''Trial already used''), expiredTrialUsers)"
    by (simp add: prod_eq_iff)
  have c: "snd (getOrCreateUser 1 ''u'' None Map.empty) ''u''
             = Some (fst (getOrCreateUser 1 ''u'' None Map.empty))
           \<and> trial (fst (getOrCreateUser 1 ''u'' None Map.empty)) = None
           \<and> 5 + TRIAL_DURATION_MS \<le> 172800005"
    by (simp add: getOrCreateUser_def TRIAL_DURATION_MS_def Let_def)
  note s = start_trial_once [where users = "snd (getOrCreateUser 1 ''u'' None Map.empty)"
      and uid = "''u''" and user = "fst (getOrCreateUser 1 ''u'' None Map.empty)"
      and now = 5 and now' = 6 and later = 172800005 and later' = 172800006]
  from s c have d: "startTrial 172800005 172800006 ''u'' (snd (startTrial 5 6 ''u'' (snd (getOrCreateUser 1 ''u'' None Map.empty))))
       = ((403, ErrorBody ''Trial already used''), snd (startTrial 5 6 ''u'' (snd (getOrCreateUser 1 ''u'' None Map.empty))))"
    by blast
  show ?thesis using a b d by blast
qed

subsection \<open>Payment confirmation\<close>

lemma confirm_missing:
  "razorpay_order_id req = [] \<or> razorpay_payment_id req = [] \<or> razorpay_signature req = [] \<Longrightarrow>
   confirm hmacSha256Hex secret now now' now'' uid req users
     = ((400, ErrorBody ''Missing Razorpay confirmation data''), users)"
  by (simp add: confirm_def)

lemma confirm_bad_signature:
  "razorpay_order_id req \<noteq> [] \<Longrightarrow> razorpay_payment_id req \<noteq> [] \<Longrightarrow>
   razorpay_signature req \<noteq> [] \<Longrightarrow>
   razorpay_signature req
     \<noteq> hmacSha256Hex secret (razorpay_order_id req @ ''|'' @ razorpay_payment_id req) \<Longrightarrow>
   confirm hmacSha256Hex secret now now' now'' uid req users
     = ((400, ErrorBody ''Invalid signature''), users)"
  by (auto simp: confirm_def Let_def)

lemma confirm_unverified_no_write:
  "razorpay_signature req
     \<noteq> hmacSha256Hex secret (razorpay_order_id req @ ''|'' @ razorpay_payment_id req) \<Longrightarrow>
   snd (confirm hmacSha256Hex secret now now' now'' uid req users) = users
   \<and> fst (fst (confirm hmacSha256Hex secret now now' now'' uid req users)) = 400"
  by (auto simp: confirm_def Let_def)

lemma confirm_ok_signature:
  "fst (fst (confirm hmacSha256Hex secret now now' now'' uid req users)) = 200 \<Longrightarrow>
   razorpay_signature req
     = hmacSha256Hex secret (razorpay_order_id req @ ''|'' @ razorpay_payment_id req)"
  using confirm_unverified_no_write [of req hmacSha256Hex secret now now' now'' uid users]
  by fastforce

text \<open>
  Claim C4. The handler compares the supplied signature with the HMAC-SHA256 hex digest of
  \<open>order_id | payment_id\<close> under the gateway secret, before anything is written. Whenever
  the supplied signature differs from that digest, the response is 400 and the document is
  the one the handler was given. For a request that carries all three members (each
  non-empty) the error is \<open>Invalid signature\<close>; a request lacking one of them is turned
  away one step earlier as \<open>Missing Razorpay confirmation data\<close>. A response 200 implies
  that the signature was the digest; for \<open>order_1\<close>, \<open>pay_1\<close> and the secret \<open>s3cret\<close>
  that is the digest of \<open>order_1|pay_1\<close> under \<open>s3cret\<close>. The statement holds for every
  function \<open>hmacSha256Hex\<close>.
\<close>

theorem confirm_checks_signature:
  "(razorpay_signature req
      \<noteq> hmacSha256Hex secret (razorpay_order_id req @ ''|'' @ razorpay_payment_id req) \<longrightarrow>
      snd (confirm hmacSha256Hex secret now now' now'' uid req users) = users
      \<and> fst (fst (confirm hmacSha256Hex secret now now' now'' uid req users)) = 400)
   \<and> (razorpay_order_id req \<noteq> [] \<and> razorpay_payment_id req \<noteq> []
        \<and> razorpay_signature req \<noteq> []
        \<and> razorpay_signature req
             \<noteq> hmacSha256Hex secret (razorpay_order_id req @ ''|'' @ razorpay_payment_id req) \<longrightarrow>
        confirm hmacSha256Hex secret now now' now'' uid req users
          = ((400, ErrorBody ''Invalid signature''), users))
   \<and> (razorpay_order_id req = ''order_1'' \<and> razorpay_payment_id req = ''pay_1''
        \<and> razorpay_signature req \<noteq> []
        \<and> razorpay_signature req \<noteq> hmacSha256Hex ''s3cret'' ''order_1|pay_1'' \<longrightarrow>
        confirm hmacSha256Hex ''s3cret'' now now' now'' uid req users
          = ((400, ErrorBody ''Invalid signature''), users))
   \<and> (fst (fst (confirm hmacSha256Hex secret now now' now'' uid req users)) = 200 \<longrightarrow>
        razorpay_signature req
          = hmacSha256Hex secret (razorpay_order_id req @ ''|'' @ razorpay_payment_id req))"
proof (intro conjI impI)
  assume "razorpay_signature req
      \<noteq> hmacSha256Hex secret (razorpay_order_id req @ ''|'' @ razorpay_payment_id req)"
  then show "snd (confirm hmacSha256Hex secret now now' now'' uid req users) = users"
    and "fst (fst (confirm hmacSha256Hex secret now now' now'' uid req users)) = 400"
    by (simp_all add: confirm_unverified_no_write)
next
  assume "razorpay_order_id req \<noteq> [] \<and> razorpay_payment_id req \<noteq> []
        \<and> razorpay_signature req \<noteq> []
        \<and> razorpay_signature req
             \<noteq> hmacSha256Hex secret (razorpay_order_id req @ ''|'' @ razorpay_payment_id req)"
  then show "confirm hmacSha256Hex secret now now' now'' uid req users
          = ((400, ErrorBody ''Invalid signature''), users)"
    by (simp add: confirm_bad_signature)
next
  assume h: "razorpay_order_id req = ''order_1'' \<and> razorpay_payment_id req = ''pay_1''
        \<and> razorpay_signature req \<noteq> []
        \<and> razorpay_signature req \<noteq> hmacSha256Hex ''s3cret'' ''order_1|pay_1''"
  show "confirm hmacSha256Hex ''s3cret'' now now' now'' uid req users
          = ((400, ErrorBody ''Invalid signature''), users)"
    by (rule confirm_bad_signature) (use h in simp_all)
next
  assume "fst (fst (confirm hmacSha256Hex secret now now' now'' uid req users)) = 200"
  then show "razorpay_signature req
          = hmacSha256Hex secret (razorpay_order_id req @ ''|'' @ razorpay_payment_id req)"
    by (rule confirm_ok_signature)
qed


text \<open>The witness takes list append as the keyed digest; any function would do.\<close>

theorem confirm_checks_signature_witness:
  "confirm (@) ''s3cret'' 1 2 3 ''u1'' forgedTopUp fallbackUsers
     = ((400, ErrorBody ''Invalid signature''), fallbackUsers)
   \<and> fst (fst (confirm (@) ''s3cret'' 1 2 3 ''u1''
                 (forgedTopUp\<lparr>razorpay_signature := ''s3cretorder_1|pay_1''\<rparr>) fallbackUsers)) = 200
   \<and> razorpay_signature (forgedTopUp\<lparr>razorpay_signature := ''s3cretorder_1|pay_1''\<rparr>)
       = ''s3cret'' @ ''order_1|pay_1''"
proof -
  note t = confirm_checks_signature [where hmacSha256Hex = "(@)" and secret = "''s3cret''"
      and now = 1 and now' = 2 and now'' = 3 and uid = "''u1''" and users = fallbackUsers]
  have a: "razorpay_order_id forgedTopUp = ''order_1'' \<and> razorpay_payment_id forgedTopUp = ''pay_1''
        \<and> razorpay_signature forgedTopUp \<noteq> []
        \<and> razorpay_signature forgedTopUp \<noteq> ''s3cret'' @ ''order_1|pay_1''"
    by (simp add: forgedTopUp_def)
  from t [of forgedTopUp] a
  have b: "confirm (@) ''s3cret'' 1 2 3 ''u1'' forgedTopUp fallbackUsers
     = ((400, ErrorBody ''Invalid signature''), fallbackUsers)"
    by blast
  have c: "fst (fst (confirm (@) ''s3cret'' 1 2 3 ''u1''
                 (forgedTopUp\<lparr>razorpay_signature := ''s3cretorder_1|pay_1''\<rparr>) fallbackUsers)) = 200"
    by (simp add: confirm_def forgedTopUp_def adjustWallet_def recordPayment_def updateUser_def
                  adjustWallet_mutator_def recordPayment_mutator_def loadUser_def Let_def
                  fallbackUsers_def fallbackAccount_def)
  from t [of "forgedTopUp\<lparr>razorpay_signature := ''s3cretorder_1|pay_1''\<rparr>"] c
  have d: "razorpay_signature (forgedTopUp\<lparr>razorpay_signature := ''s3cretorder_1|pay_1''\<rparr>)
       = ''s3cret'' @ (razorpay_order_id (forgedTopUp\<lparr>razorpay_signature := ''s3cretorder_1|pay_1''\<rparr>)
            @ ''|'' @ razorpay_payment_id (forgedTopUp\<lparr>razorpay_signature := ''s3cretorder_1|pay_1''\<rparr>))"
    by blast
  have e: "razorpay_signature (forgedTopUp\<lparr>razorpay_signature := ''s3cretorder_1|pay_1''\<rparr>)
       = ''s3cret'' @ ''order_1|pay_1''"
    using d by (simp add: forgedTopUp_def)
  show ?thesis using b c e by blast
qed


subsection \<open>Fractional minutes\<close>

lemma ceiling_three_halves: "\<lceil>3 / 2 :: rat\<rceil> = 2"
  by (simp add: ceiling_eq_iff)

lemma ceiling_one_half: "\<lceil>1 / 2 :: rat\<rceil> = 1"
  by (simp add: ceiling_eq_iff)

text \<open>
  Claim C5 against the code. The wallet branch charges \<open>ceil(minutes) * 100\<close> paise, but
  the plan branch and the trial branch use the requested quantity as it came: a request
  for 3/2 minutes takes 3/2 minutes from a plan of 10 (17/2 remain, not 8), a request for
  1/2 minute moves a trial from 59 to 119/2 consumed minutes (not 60), while the same 3/2
  minutes cost 200 paise from a wallet.
\<close>

theorem fractional_minutes_charged_unrounded:
  "map_option (map_option remainingMinutes \<circ> activePlan)
       (snd (usageConsume 1000 1001 ''u2'' (Some (3 / 2)) planUsers) ''u2'') = Some (Some (17 / 2))
   \<and> fst (usageConsume 1000 1001 ''u2'' (Some (3 / 2)) planUsers)
       = (200, UsageBody SourcePlan
            (map_option publicUser (snd (usageConsume 1000 1001 ''u2'' (Some (3 / 2)) planUsers) ''u2''))
            None)
   \<and> map_option (map_option consumedMinutes \<circ> trial)
       (snd (usageConsume 1000 1001 ''u1'' (Some (1 / 2)) fallbackUsers) ''u1'') = Some (Some (119 / 2))
   \<and> fst (usageConsume 2000 2001 ''u3'' (Some (3 / 2)) expiredTrialUsers)
       = (200, UsageBody SourceWallet
            (map_option publicUser
               (snd (usageConsume 2000 2001 ''u3'' (Some (3 / 2)) expiredTrialUsers) ''u3''))
            (Some 200))
   \<and> \<lceil>3 / 2 :: rat\<rceil> = 2 \<and> \<lceil>1 / 2 :: rat\<rceil> = 1"
  by (simp add: ceiling_three_halves ceiling_one_half adjustWallet_def adjustWallet_mutator_def
                expiredTrialUsers_def expiredTrialAccount_def WALLET_COST_PER_MINUTE_PAISE_def
                usageConsume_def usageAfterPlan_def trialCovers_def usageDone_def loadUser_def
                activatePlan_def consumeTrialMinutes_def updateUser_def activatePlan_mutator_def
                consumeTrialMinutes_mutator_def Let_def planUsers_def planAccount_def
                fallbackUsers_def fallbackAccount_def)

subsection \<open>An expired trial\<close>

text \<open>
  Claim C7 against the code. The account has a trial stored as active that expired at
  1000. A request at 2000 for one minute is paid from the wallet (100 paise), and the
  stored trial is still marked active afterwards: the handler skips the trial branch
  without calling \<open>consumeTrialMinutes\<close>. Calling \<open>consumeTrialMinutes\<close> itself on
  this account throws \<open>Trial expired\<close> and leaves the document as it was, so the
  assignment \<open>user.trial.active = false\<close> that precedes the \<open>throw\<close> is never written.
\<close>

theorem expired_trial_stays_active_in_store:
  "map_option (map_option active \<circ> trial) (expiredTrialUsers ''u3'') = Some (Some True)
   \<and> map_option (map_option expiresAt \<circ> trial) (expiredTrialUsers ''u3'') = Some (Some 1000)
   \<and> fst (usageConsume 2000 2001 ''u3'' (Some 1) expiredTrialUsers)
       = (200, UsageBody SourceWallet
            (map_option publicUser (snd (usageConsume 2000 2001 ''u3'' (Some 1) expiredTrialUsers) ''u3''))
            (Some 100))
   \<and> map_option (map_option active \<circ> trial)
       (snd (usageConsume 2000 2001 ''u3'' (Some 1) expiredTrialUsers) ''u3'') = Some (Some True)
   \<and> consumeTrialMinutes 2000 ''u3'' 1 expiredTrialUsers
       = (Inl (Error ''Trial expired''), expiredTrialUsers)"
  by (simp add: usageConsume_def usageAfterPlan_def trialCovers_def usageDone_def loadUser_def
                adjustWallet_def consumeTrialMinutes_def updateUser_def adjustWallet_mutator_def
                consumeTrialMinutes_mutator_def Let_def expiredTrialUsers_def expiredTrialAccount_def
                WALLET_COST_PER_MINUTE_PAISE_def)

subsection \<open>Repeated getOrCreateUser\<close>

text \<open>
  The claim C8 as stated fails when the second call carries a profile object, even one
  with no member set: the existing branch then stamps \<open>updatedAt\<close> with the current time.
\<close>

theorem getOrCreate_same_hints_counterexample:
  "fst (getOrCreateUser 2 ''u''
          (Some \<lparr>prof_email = None, prof_name = None, prof_picture = None\<rparr>)
          (snd (getOrCreateUser 1 ''u''
                  (Some \<lparr>prof_email = None, prof_name = None, prof_picture = None\<rparr>) Map.empty)))
   \<noteq> fst (getOrCreateUser 1 ''u''
            (Some \<lparr>prof_email = None, prof_name = None, prof_picture = None\<rparr>) Map.empty)"
  by (simp add: getOrCreateUser_def Let_def nullish_def)

lemma getOrCreateUser_stored:
  "snd (getOrCreateUser now uid profile users) uid = Some (fst (getOrCreateUser now uid profile users))"
  by (simp add: getOrCreateUser_def Let_def split: option.splits)

text \<open>
  Claim C8, amended. A second \<open>getOrCreateUser\<close> for the same id with the profile argument
  absent returns exactly the record and the document that the first call returned,
  \<open>updatedAt\<close> included. A second call that passes a profile object returns the first
  call's record with the supplied members merged in and \<open>updatedAt\<close> set to the time of the
  second call, and stores it.
\<close>

theorem getOrCreate_idempotent:
  "getOrCreateUser now2 uid None (snd (getOrCreateUser now1 uid profile users))
     = getOrCreateUser now1 uid profile users
   \<and> getOrCreateUser now2 uid (Some p) (snd (getOrCreateUser now1 uid profile users))
     = ((fst (getOrCreateUser now1 uid profile users))
          \<lparr>email := nullish (prof_email p) (email (fst (getOrCreateUser now1 uid profile users))),
           name := nullish (prof_name p) (name (fst (getOrCreateUser now1 uid profile users))),
           picture := nullish (prof_picture p) (picture (fst (getOrCreateUser now1 uid profile users))),
           updatedAt := now2\<rparr>,
        (snd (getOrCreateUser now1 uid profile users))
          (uid \<mapsto> (fst (getOrCreateUser now1 uid profile users))
          \<lparr>email := nullish (prof_email p) (email (fst (getOrCreateUser now1 uid profile users))),
           name := nullish (prof_name p) (name (fst (getOrCreateUser now1 uid profile users))),
           picture := nullish (prof_picture p) (picture (fst (getOrCreateUser now1 uid profile users))),
           updatedAt := now2\<rparr>))"
proof -
  obtain u users1 where r: "getOrCreateUser now1 uid profile users = (u, users1)"
    by (cases "getOrCreateUser now1 uid profile users")
  with getOrCreateUser_stored [of now1 uid profile users] have st: "users1 uid = Some u"
    by simp
  show ?thesis
    unfolding r using st by (simp add: getOrCreateUser_def Let_def)
qed

subsection \<open>The plan's expiry is never consulted\<close>

lemma forget_lookup:
  "forgetPlanExpiries users uid = map_option forgetPlanExpiry (users uid)"
  by (simp add: forgetPlanExpiries_def)

lemma forget_upd [simp]:
  "forgetPlanExpiries (users(uid \<mapsto> user)) = (forgetPlanExpiries users)(uid \<mapsto> forgetPlanExpiry user)"
  by (rule ext) (simp add: forgetPlanExpiries_def)

lemma forget_plan_idem:
  "map_option (\<lambda>plan. plan\<lparr>planExpiresAt := None\<rparr>)
     (map_option (\<lambda>plan. plan\<lparr>planExpiresAt := None\<rparr>) p)
   = map_option (\<lambda>plan::ActivePlan. plan\<lparr>planExpiresAt := None\<rparr>) p"
  by (cases p) simp_all

lemma forget_idem [simp]: "forgetPlanExpiry (forgetPlanExpiry user) = forgetPlanExpiry user"
  by (simp add: forgetPlanExpiry_def forget_plan_idem)

lemma forget_all_idem [simp]: "forgetPlanExpiries (forgetPlanExpiries users) = forgetPlanExpiries users"
proof (rule ext)
  fix uid
  show "forgetPlanExpiries (forgetPlanExpiries users) uid = forgetPlanExpiries users uid"
    by (cases "users uid") (simp_all add: forgetPlanExpiries_def)
qed

lemma forget_public [simp]:
  "forgetPlanExpiryPublic (publicUser user) = publicUser (forgetPlanExpiry user)"
  by (simp add: forgetPlanExpiryPublic_def publicUser_def forgetPlanExpiry_def)

lemma forget_fields [simp]:
  "walletBalancePaise (forgetPlanExpiry user) = walletBalancePaise user"
  "trial (forgetPlanExpiry user) = trial user"
  "paymentHistory (forgetPlanExpiry user) = paymentHistory user"
  "activePlan (forgetPlanExpiry user) = map_option (\<lambda>plan. plan\<lparr>planExpiresAt := None\<rparr>) (activePlan user)"
  by (simp_all add: forgetPlanExpiry_def)

lemma forget_updatedAt:
  "forgetPlanExpiry (user\<lparr>updatedAt := n\<rparr>) = (forgetPlanExpiry user)\<lparr>updatedAt := n\<rparr>"
  by (simp add: forgetPlanExpiry_def)

lemma updateUser_blind:
  assumes "blind mutator"
  shows "forgetPlanExpiries (snd (updateUser now uid mutator (forgetPlanExpiries users)))
           = forgetPlanExpiries (snd (updateUser now uid mutator users))
       \<and> map_sum id forgetPlanExpiry (fst (updateUser now uid mutator (forgetPlanExpiries users)))
           = map_sum id forgetPlanExpiry (fst (updateUser now uid mutator users))"
proof (cases "users uid")
  case None
  then show ?thesis by (simp add: updateUser_def forget_lookup)
next
  case (Some user)
  from assms have b: "map_sum id forgetPlanExpiry (mutator (forgetPlanExpiry user))
                            = map_sum id forgetPlanExpiry (mutator user)"
    by (simp add: blind_def)
  show ?thesis
  proof (cases "mutator user")
    case (Inl e)
    with b have "mutator (forgetPlanExpiry user) = Inl e"
      by (cases "mutator (forgetPlanExpiry user)") auto
    with Inl Some show ?thesis by (simp add: updateUser_def forget_lookup)
  next
    case (Inr mutated)
    with b obtain mutated' where m: "mutator (forgetPlanExpiry user) = Inr mutated'"
      and e: "forgetPlanExpiry mutated' = forgetPlanExpiry mutated"
      by (cases "mutator (forgetPlanExpiry user)") auto
    from e have "forgetPlanExpiry (mutated'\<lparr>updatedAt := now\<rparr>) = forgetPlanExpiry (mutated\<lparr>updatedAt := now\<rparr>)"
      by (simp add: forget_updatedAt)
    with Inr Some m show ?thesis by (simp add: updateUser_def Let_def forget_lookup)
  qed
qed

lemma blind_mutators:
  "blind (recordPayment_mutator now d)"
  "blind (activatePlan_mutator plan)"
  "blind (setTrialInfo_mutator t)"
  "blind (adjustWallet_mutator deltaPaise)"
  "blind clearTrial_mutator"
  "blind (ensureActivePlanMinutes_mutator minutes)"
  "blind (consumeTrialMinutes_mutator now minutes)"
  by (auto simp: blind_def forgetPlanExpiry_def recordPayment_mutator_def activatePlan_mutator_def
        setTrialInfo_mutator_def adjustWallet_mutator_def clearTrial_mutator_def
        ensureActivePlanMinutes_mutator_def consumeTrialMinutes_mutator_def Let_def
        forget_plan_idem
        split: option.splits)

lemma getOrCreateUser_blind:
  "forgetPlanExpiries (snd (getOrCreateUser now uid profile (forgetPlanExpiries users)))
     = forgetPlanExpiries (snd (getOrCreateUser now uid profile users))"
  by (cases "users uid"; cases profile)
     (simp_all add: getOrCreateUser_def Let_def forgetPlanExpiry_def forget_plan_idem forget_lookup)

lemma applyOp_blind:
  "forgetPlanExpiries (applyOp op (forgetPlanExpiries users)) = forgetPlanExpiries (applyOp op users)"
proof (cases op)
  case (Pair now lop)
  then show ?thesis
    by (cases lop)
       (simp_all add: getOrCreateUser_blind recordPayment_def activatePlan_def setTrialInfo_def
          adjustWallet_def clearTrial_def ensureActivePlanMinutes_def consumeTrialMinutes_def
          updateUser_blind blind_mutators)
qed

lemma runOps_blind:
  "forgetPlanExpiries (runOps ops (forgetPlanExpiries users)) = forgetPlanExpiries (runOps ops users)"
proof (induction ops arbitrary: users)
  case Nil
  show ?case by simp
next
  case (Cons op ops)
  have "forgetPlanExpiries (runOps ops (applyOp op (forgetPlanExpiries users)))
      = forgetPlanExpiries (runOps ops (forgetPlanExpiries (applyOp op (forgetPlanExpiries users))))"
    by (simp add: Cons.IH)
  also have "\<dots> = forgetPlanExpiries (runOps ops (forgetPlanExpiries (applyOp op users)))"
    by (simp add: applyOp_blind)
  also have "\<dots> = forgetPlanExpiries (runOps ops (applyOp op users))"
    by (simp add: Cons.IH)
  finally show ?case by simp
qed

lemma forget_response_simps:
  "forgetPlanExpiryResponse (code, ErrorBody msg) = (code, ErrorBody msg)"
  "forgetPlanExpiryResponse (code, InsufficientBody msg n) = (code, InsufficientBody msg n)"
  "forgetPlanExpiryResponse (code, TrialBody t m) = (code, TrialBody t m)"
  by simp_all

lemma trialCovers_blind: "trialCovers now (forgetPlanExpiry user) m = trialCovers now user m"
  by (simp add: trialCovers_def)

lemma usageDone_blind:
  assumes "forgetPlanExpiries (snd r') = forgetPlanExpiries (snd r)"
    and "map_sum id forgetPlanExpiry (fst r') = map_sum id forgetPlanExpiry (fst r)"
  shows "forgetPlanExpiries (snd (usageDone source debited uid r'))
           = forgetPlanExpiries (snd (usageDone source debited uid r))
       \<and> forgetPlanExpiryResponse (fst (usageDone source debited uid r'))
           = forgetPlanExpiryResponse (fst (usageDone source debited uid r))"
proof -
  obtain a users1 where r: "r = (a, users1)" by (cases r)
  obtain a' users1' where r': "r' = (a', users1')" by (cases r')
  from assms r r' have st: "forgetPlanExpiries users1' = forgetPlanExpiries users1" by simp
  then have "forgetPlanExpiries users1' uid = forgetPlanExpiries users1 uid" by simp
  then have lk: "map_option forgetPlanExpiry (users1' uid) = map_option forgetPlanExpiry (users1 uid)"
    by (simp add: forget_lookup)
  have pu: "map_option forgetPlanExpiryPublic (map_option publicUser (users1' uid))
            = map_option forgetPlanExpiryPublic (map_option publicUser (users1 uid))"
    using lk by (cases "users1 uid"; cases "users1' uid") auto
  from assms r r' have res: "map_sum id forgetPlanExpiry a' = map_sum id forgetPlanExpiry a" by simp
  show ?thesis
  proof (cases a)
    case (Inl e)
    with res have "a' = Inl e" by (cases a') auto
    with Inl r r' st show ?thesis by (cases e) (simp add: usageDone_def)
  next
    case (Inr u)
    with res obtain u' where "a' = Inr u'" by (cases a') auto
    with Inr r r' st pu show ?thesis by (simp add: usageDone_def loadUser_def)
  qed
qed

lemma usageAfterPlan_blind:
  "forgetPlanExpiries (snd (usageAfterPlan now now' uid m (forgetPlanExpiry user) (forgetPlanExpiries users)))
     = forgetPlanExpiries (snd (usageAfterPlan now now' uid m user users))
   \<and> forgetPlanExpiryResponse (fst (usageAfterPlan now now' uid m (forgetPlanExpiry user) (forgetPlanExpiries users)))
     = forgetPlanExpiryResponse (fst (usageAfterPlan now now' uid m user users))"
  unfolding usageAfterPlan_def Let_def trialCovers_blind forget_fields
  by (auto simp: consumeTrialMinutes_def adjustWallet_def
           intro!: usageDone_blind updateUser_blind [THEN conjunct1] updateUser_blind [THEN conjunct2]
                   blind_mutators)

lemma activatePlan_blind:
  assumes "plan'\<lparr>planExpiresAt := None\<rparr> = plan\<lparr>planExpiresAt := None\<rparr>"
  shows "forgetPlanExpiries (snd (activatePlan now uid plan' (forgetPlanExpiries users)))
           = forgetPlanExpiries (snd (activatePlan now uid plan users))
       \<and> map_sum id forgetPlanExpiry (fst (activatePlan now uid plan' (forgetPlanExpiries users)))
           = map_sum id forgetPlanExpiry (fst (activatePlan now uid plan users))"
  using assms
  by (cases "users uid")
     (simp_all add: activatePlan_def updateUser_def activatePlan_mutator_def Let_def forget_lookup
                    forgetPlanExpiry_def)

lemma usageConsume_blind:
  "forgetPlanExpiries (snd (usageConsume now now' uid minutes (forgetPlanExpiries users)))
     = forgetPlanExpiries (snd (usageConsume now now' uid minutes users))
   \<and> forgetPlanExpiryResponse (fst (usageConsume now now' uid minutes (forgetPlanExpiries users)))
     = forgetPlanExpiryResponse (fst (usageConsume now now' uid minutes users))"
proof (cases minutes)
  case None
  then show ?thesis by (simp add: usageConsume_def)
next
  case (Some m)
  show ?thesis
  proof (cases "m \<le> 0")
    case True
    with Some show ?thesis by (simp add: usageConsume_def)
  next
    case False
    show ?thesis
    proof (cases "users uid")
      case None
      with Some False show ?thesis by (simp add: usageConsume_def loadUser_def forget_lookup)
    next
      case user: (Some user)
      show ?thesis
      proof (cases "activePlan user")
        case None
        with Some False user show ?thesis
          using usageAfterPlan_blind [of now now' uid m user users]
          by (simp add: usageConsume_def loadUser_def forget_lookup)
      next
        case plan: (Some plan)
        show ?thesis
        proof (cases "remainingMinutes plan \<ge> m")
          case True
          have "(plan\<lparr>planExpiresAt := None\<rparr>)\<lparr>remainingMinutes := remainingMinutes plan - m\<rparr>\<lparr>planExpiresAt := None\<rparr>
                = (plan\<lparr>remainingMinutes := remainingMinutes plan - m\<rparr>)\<lparr>planExpiresAt := None\<rparr>"
            by simp
          note ap = activatePlan_blind [OF this, of now' uid users]
          from usageDone_blind [OF ap [THEN conjunct1] ap [THEN conjunct2], of SourcePlan None uid]
          show ?thesis
            using Some False user plan True
            by (simp add: usageConsume_def loadUser_def forget_lookup)
        next
          case nocover: False
          with Some False user plan show ?thesis
            using usageAfterPlan_blind [of now now' uid m user users]
            by (simp add: usageConsume_def loadUser_def forget_lookup)
        qed
      qed
    qed
  qed
qed

lemma startTrial_blind:
  "forgetPlanExpiries (snd (startTrial now now' uid (forgetPlanExpiries users)))
     = forgetPlanExpiries (snd (startTrial now now' uid users))
   \<and> forgetPlanExpiryResponse (fst (startTrial now now' uid (forgetPlanExpiries users)))
     = forgetPlanExpiryResponse (fst (startTrial now now' uid users))"
proof (cases "users uid")
  case None
  then show ?thesis by (simp add: startTrial_def loadUser_def forget_lookup)
next
  case (Some user)
  then show ?thesis
    by (cases "trial user")
       (simp_all add: startTrial_def loadUser_def forget_lookup setTrialInfo_def updateUser_def
                      setTrialInfo_mutator_def Let_def forgetPlanExpiry_def forget_plan_idem)
qed

lemma getStatus_blind:
  "forgetPlanExpiries (snd (getStatus now uid (forgetPlanExpiries users)))
     = forgetPlanExpiries (snd (getStatus now uid users))
   \<and> forgetPlanExpiryResponse (fst (getStatus now uid (forgetPlanExpiries users)))
     = forgetPlanExpiryResponse (fst (getStatus now uid users))"
proof (cases "users uid")
  case None
  then show ?thesis by (simp add: getStatus_def loadUser_def forget_lookup)
next
  case (Some user)
  then show ?thesis
    by (cases "trial user")
       (simp_all add: getStatus_def loadUser_def forget_lookup Let_def forgetPlanExpiry_def
                      forgetPlanExpiryPublic_def publicUser_def forget_plan_idem)
qed

lemma updateUser_blind_cong:
  assumes "blind mutator" and "forgetPlanExpiries A = forgetPlanExpiries B"
  shows "forgetPlanExpiries (snd (updateUser now uid mutator A))
           = forgetPlanExpiries (snd (updateUser now uid mutator B))"
    and "map_sum id forgetPlanExpiry (fst (updateUser now uid mutator A))
           = map_sum id forgetPlanExpiry (fst (updateUser now uid mutator B))"
  using updateUser_blind [OF assms(1), of now uid A] updateUser_blind [OF assms(1), of now uid B]
        assms(2)
  by simp_all

lemma confirm_record_blind:
  assumes "forgetPlanExpiries A = forgetPlanExpiries B"
  shows "forgetPlanExpiries (snd (case recordPayment t uid d A of
             (Inl _, users2) \<Rightarrow> confirmFailed users2
           | (Inr _, users2) \<Rightarrow>
               ((200, UserBody (map_option publicUser (loadUser uid users2))), users2)))
       = forgetPlanExpiries (snd (case recordPayment t uid d B of
             (Inl _, users2) \<Rightarrow> confirmFailed users2
           | (Inr _, users2) \<Rightarrow>
               ((200, UserBody (map_option publicUser (loadUser uid users2))), users2)))
     \<and> forgetPlanExpiryResponse (fst (case recordPayment t uid d A of
             (Inl _, users2) \<Rightarrow> confirmFailed users2
           | (Inr _, users2) \<Rightarrow>
               ((200, UserBody (map_option publicUser (loadUser uid users2))), users2)))
       = forgetPlanExpiryResponse (fst (case recordPayment t uid d B of
             (Inl _, users2) \<Rightarrow> confirmFailed users2
           | (Inr _, users2) \<Rightarrow>
               ((200, UserBody (map_option publicUser (loadUser uid users2))), users2)))"
proof -
  obtain a ua where ra: "recordPayment t uid d A = (a, ua)" by (cases "recordPayment t uid d A")
  obtain b ub where rb: "recordPayment t uid d B = (b, ub)" by (cases "recordPayment t uid d B")
  from updateUser_blind_cong [OF blind_mutators(1) assms, where now = t and uid = uid and now1 = t and d1 = d] ra rb
  have st: "forgetPlanExpiries ua = forgetPlanExpiries ub"
    and res: "map_sum id forgetPlanExpiry a = map_sum id forgetPlanExpiry b"
    by (simp_all add: recordPayment_def)
  from st have "forgetPlanExpiries ua uid = forgetPlanExpiries ub uid" by simp
  then have lk: "map_option forgetPlanExpiry (ua uid) = map_option forgetPlanExpiry (ub uid)"
    by (simp add: forget_lookup)
  have pu: "map_option forgetPlanExpiryPublic (map_option publicUser (ua uid))
            = map_option forgetPlanExpiryPublic (map_option publicUser (ub uid))"
    using lk by (cases "ua uid"; cases "ub uid") auto
  show ?thesis
  proof (cases b)
    case (Inl e)
    with res have "a = Inl e" by (cases a) auto
    with Inl ra rb st show ?thesis by (simp add: confirmFailed_def)
  next
    case (Inr u)
    with res obtain u' where "a = Inr u'" by (cases a) auto
    with Inr ra rb st pu show ?thesis by (simp add: loadUser_def)
  qed
qed

lemma confirm_blind:
  "forgetPlanExpiries (snd (confirm h secret now now' now'' uid req (forgetPlanExpiries users)))
     = forgetPlanExpiries (snd (confirm h secret now now' now'' uid req users))
   \<and> forgetPlanExpiryResponse (fst (confirm h secret now now' now'' uid req (forgetPlanExpiries users)))
     = forgetPlanExpiryResponse (fst (confirm h secret now now' now'' uid req users))"
proof -
  have first: "\<And>mutator d.
    blind mutator \<Longrightarrow>
    forgetPlanExpiries (snd (case updateUser now' uid mutator (forgetPlanExpiries users) of
         (Inl _, users1) \<Rightarrow> confirmFailed users1
       | (Inr _, users1) \<Rightarrow>
           (case recordPayment now'' uid d users1 of
              (Inl _, users2) \<Rightarrow> confirmFailed users2
            | (Inr _, users2) \<Rightarrow>
                ((200, UserBody (map_option publicUser (loadUser uid users2))), users2))))
    = forgetPlanExpiries (snd (case updateUser now' uid mutator users of
         (Inl _, users1) \<Rightarrow> confirmFailed users1
       | (Inr _, users1) \<Rightarrow>
           (case recordPayment now'' uid d users1 of
              (Inl _, users2) \<Rightarrow> confirmFailed users2
            | (Inr _, users2) \<Rightarrow>
                ((200, UserBody (map_option publicUser (loadUser uid users2))), users2))))
    \<and> forgetPlanExpiryResponse (fst (case updateUser now' uid mutator (forgetPlanExpiries users) of
         (Inl _, users1) \<Rightarrow> confirmFailed users1
       | (Inr _, users1) \<Rightarrow>
           (case recordPayment now'' uid d users1 of
              (Inl _, users2) \<Rightarrow> confirmFailed users2
            | (Inr _, users2) \<Rightarrow>
                ((200, UserBody (map_option publicUser (loadUser uid users2))), users2))))
    = forgetPlanExpiryResponse (fst (case updateUser now' uid mutator users of
         (Inl _, users1) \<Rightarrow> confirmFailed users1
       | (Inr _, users1) \<Rightarrow>
           (case recordPayment now'' uid d users1 of
              (Inl _, users2) \<Rightarrow> confirmFailed users2
            | (Inr _, users2) \<Rightarrow>
                ((200, UserBody (map_option publicUser (loadUser uid users2))), users2))))"
  proof -
    fix mutator d
    assume bl: "blind mutator"
    obtain a ua where ra: "updateUser now' uid mutator (forgetPlanExpiries users) = (a, ua)"
      by (cases "updateUser now' uid mutator (forgetPlanExpiries users)")
    obtain b ub where rb: "updateUser now' uid mutator users = (b, ub)"
      by (cases "updateUser now' uid mutator users")
    from updateUser_blind [OF bl, of now' uid users] ra rb
    have st: "forgetPlanExpiries ua = forgetPlanExpiries ub"
      and res: "map_sum id forgetPlanExpiry a = map_sum id forgetPlanExpiry b"
      by simp_all
    show "?thesis mutator d"
    proof (cases b)
      case (Inl e)
      with res have "a = Inl e" by (cases a) auto
      with Inl ra rb st show ?thesis by (simp add: confirmFailed_def)
    next
      case (Inr u)
      with res obtain u' where "a = Inr u'" by (cases a) auto
      with Inr ra rb show ?thesis
        using confirm_record_blind [OF st, where t = now'' and uid = uid and d = d] by simp
    qed
  qed
  show ?thesis
    unfolding confirm_def Let_def activatePlan_def adjustWallet_def
    by (auto split: Intent.splits option.splits
             simp: first [OF blind_mutators(2)] first [OF blind_mutators(4)])
qed

text \<open>
  Claim C10. A request for \<open>m > 0\<close> minutes on an account whose plan holds at least \<open>m\<close>
  minutes is paid from the plan, with \<open>source = plan\<close>, for every value of the plan's
  \<open>expiresAt\<close> and every clock reading, so also when \<open>expiresAt\<close> lies in the past. And no
  operation looks at the field: every sequence of ledger operations and each of the
  handlers (usage consume, start trial, status, payment confirmation) leaves the same
  document and sends the same response, up to the stored \<open>expiresAt\<close> values themselves,
  when run on the document with all plan expiries overwritten by \<open>null\<close>.
\<close>

theorem plan_expiry_never_consulted:
  "(users uid = Some user \<and> activePlan user = Some plan \<and> 0 < m \<and> m \<le> remainingMinutes plan \<longrightarrow>
      usageConsume now now' uid (Some m) users
        = ((200, UsageBody SourcePlan
              (Some (publicUser (user\<lparr>activePlan :=
                        Some (plan\<lparr>remainingMinutes := remainingMinutes plan - m\<rparr>),
                      updatedAt := now'\<rparr>))) None),
           users(uid \<mapsto> user\<lparr>activePlan :=
                        Some (plan\<lparr>remainingMinutes := remainingMinutes plan - m\<rparr>),
                      updatedAt := now'\<rparr>)))
   \<and> forgetPlanExpiries (runOps ops (forgetPlanExpiries users)) = forgetPlanExpiries (runOps ops users)
   \<and> forgetPlanExpiries (snd (usageConsume now now' uid minutes (forgetPlanExpiries users)))
       = forgetPlanExpiries (snd (usageConsume now now' uid minutes users))
   \<and> forgetPlanExpiryResponse (fst (usageConsume now now' uid minutes (forgetPlanExpiries users)))
       = forgetPlanExpiryResponse (fst (usageConsume now now' uid minutes users))
   \<and> forgetPlanExpiries (snd (startTrial now now' uid (forgetPlanExpiries users)))
       = forgetPlanExpiries (snd (startTrial now now' uid users))
   \<and> forgetPlanExpiryResponse (fst (startTrial now now' uid (forgetPlanExpiries users)))
       = forgetPlanExpiryResponse (fst (startTrial now now' uid users))
   \<and> forgetPlanExpiries (snd (getStatus now uid (forgetPlanExpiries users)))
       = forgetPlanExpiries (snd (getStatus now uid users))
   \<and> forgetPlanExpiryResponse (fst (getStatus now uid (forgetPlanExpiries users)))
       = forgetPlanExpiryResponse (fst (getStatus now uid users))
   \<and> forgetPlanExpiries (snd (confirm h secret now now' now'' uid req (forgetPlanExpiries users)))
       = forgetPlanExpiries (snd (confirm h secret now now' now'' uid req users))
   \<and> forgetPlanExpiryResponse (fst (confirm h secret now now' now'' uid req (forgetPlanExpiries users)))
       = forgetPlanExpiryResponse (fst (confirm h secret now now' now'' uid req users))"
proof -
  have plan: "users uid = Some user \<and> activePlan user = Some plan \<and> 0 < m \<and> m \<le> remainingMinutes plan \<longrightarrow>
      usageConsume now now' uid (Some m) users
        = ((200, UsageBody SourcePlan
              (Some (publicUser (user\<lparr>activePlan :=
                        Some (plan\<lparr>remainingMinutes := remainingMinutes plan - m\<rparr>),
                      updatedAt := now'\<rparr>))) None),
           users(uid \<mapsto> user\<lparr>activePlan :=
                        Some (plan\<lparr>remainingMinutes := remainingMinutes plan - m\<rparr>),
                      updatedAt := now'\<rparr>))"
    by (simp add: usageConsume_plan)
  note u = usageConsume_blind [of now now' uid minutes users]
  note s = startTrial_blind [of now now' uid users]
  note g = getStatus_blind [of now uid users]
  note c = confirm_blind [of h secret now now' now'' uid req users]
  show ?thesis
    using plan runOps_blind [of ops users] u s g c by blast
qed

theorem plan_expiry_never_consulted_witness:
  "planUsers ''u2'' = Some planAccount
   \<and> map_option planExpiresAt (activePlan planAccount) = Some (Some 500)
   \<and> (500::int) < 1000
   \<and> fst (fst (usageConsume 1000 1001 ''u2'' (Some 4) planUsers)) = 200
   \<and> map_option (map_option remainingMinutes \<circ> activePlan)
        (snd (usageConsume 1000 1001 ''u2'' (Some 4) planUsers) ''u2'') = Some (Some 6)
   \<and> map_option (map_option planExpiresAt \<circ> activePlan)
        (snd (usageConsume 1000 1001 ''u2'' (Some 4) planUsers) ''u2'') = Some (Some (Some 500))"
proof -
  have a: "planUsers ''u2'' = Some planAccount
     \<and> activePlan planAccount
         = Some \<lparr>planId = EditorBasic, activatedAt = 0, planExpiresAt = Some 500,
                 remainingMinutes = 10\<rparr>
     \<and> (0::rat) < 4
     \<and> 4 \<le> remainingMinutes \<lparr>planId = EditorBasic, activatedAt = 0, planExpiresAt = Some 500,
                 remainingMinutes = 10\<rparr>"
    by (simp add: planUsers_def planAccount_def)
  note t = plan_expiry_never_consulted [where users = planUsers and uid = "''u2''"
      and user = planAccount and m = 4 and now = 1000 and now' = 1001
      and plan = "\<lparr>planId = EditorBasic, activatedAt = 0, planExpiresAt = Some 500,
                 remainingMinutes = 10\<rparr>"]
  from t a have r: "usageConsume 1000 1001 ''u2'' (Some 4) planUsers
        = ((200, UsageBody SourcePlan
              (Some (publicUser (planAccount\<lparr>activePlan :=
                        Some (\<lparr>planId = EditorBasic, activatedAt = 0, planExpiresAt = Some 500,
                                remainingMinutes = 10\<rparr>\<lparr>remainingMinutes :=
                                  remainingMinutes \<lparr>planId = EditorBasic, activatedAt = 0,
                                    planExpiresAt = Some 500, remainingMinutes = 10\<rparr> - 4\<rparr>),
                      updatedAt := 1001\<rparr>))) None),
           planUsers(''u2'' \<mapsto> planAccount\<lparr>activePlan :=
                        Some (\<lparr>planId = EditorBasic, activatedAt = 0, planExpiresAt = Some 500,
                                remainingMinutes = 10\<rparr>\<lparr>remainingMinutes :=
                                  remainingMinutes \<lparr>planId = EditorBasic, activatedAt = 0,
                                    planExpiresAt = Some 500, remainingMinutes = 10\<rparr> - 4\<rparr>),
                      updatedAt := 1001\<rparr>))"
    by blast
  show ?thesis
    using a by (simp add: r planAccount_def)
qed

subsection \<open>Two wallet adjustments run one after the other\<close>

text \<open>
  \<open>withLock\<close> itself, a chain of promises, has no counterpart in this development: the
  operations above are its bodies, run one at a time. For two adjustments of +500 and
  -200 on a balance of 1000, either order of running them leaves 1300.
\<close>

lemma adjustWallet_either_order:
  assumes "users uid = Some user" and "walletBalancePaise user = 1000"
  shows "map_option walletBalancePaise
           (snd (adjustWallet t2 uid (- 200) (snd (adjustWallet t1 uid 500 users))) uid) = Some 1300"
    and "map_option walletBalancePaise
           (snd (adjustWallet t2 uid 500 (snd (adjustWallet t1 uid (- 200) users))) uid) = Some 1300"
  using assms
  by (simp_all add: adjustWallet_def updateUser_def adjustWallet_mutator_def Let_def)

end
